theory Spec2Isabelle
  imports Main "HOL-Library.Word"
begin

section \<open>Bytes, buffers and the crypto library\<close>

type_synonym byte = "8 word"
type_synonym bytes = "byte list"

text \<open>
  A buffer is the list of the bytes that start at a pointer. \<open>slice off n m\<close> reads the
  \<open>n\<close> bytes at \<open>m + off\<close>; \<open>store off bs m\<close> is \<open>m\<close> after \<open>bs\<close> has been written at
  \<open>m + off\<close> (a \<open>memcpy\<close>, or the output of a library call). A write that runs past the
  last byte of \<open>m\<close> lands in the bytes behind it, so the list grows.
\<close>

definition slice :: "nat \<Rightarrow> nat \<Rightarrow> bytes \<Rightarrow> bytes" where
  "slice off n m = take n (drop off m)"

definition store :: "nat \<Rightarrow> bytes \<Rightarrow> bytes \<Rightarrow> bytes" where
  "store off bs m = take off m @ bs @ drop (off + length bs) m"

text \<open>The size constants of \<open>sodium.h\<close> that \<open>shs1.c\<close> uses (section 3 of the specification).\<close>

definition crypto_auth_BYTES :: nat where "crypto_auth_BYTES = 32"
definition crypto_auth_KEYBYTES :: nat where "crypto_auth_KEYBYTES = 32"
definition crypto_sign_BYTES :: nat where "crypto_sign_BYTES = 64"
definition crypto_sign_PUBLICKEYBYTES :: nat where "crypto_sign_PUBLICKEYBYTES = 32"
definition crypto_sign_SECRETKEYBYTES :: nat where "crypto_sign_SECRETKEYBYTES = 64"
definition crypto_box_PUBLICKEYBYTES :: nat where "crypto_box_PUBLICKEYBYTES = 32"
definition crypto_box_SECRETKEYBYTES :: nat where "crypto_box_SECRETKEYBYTES = 32"
definition crypto_box_NONCEBYTES :: nat where "crypto_box_NONCEBYTES = 24"
definition crypto_scalarmult_BYTES :: nat where "crypto_scalarmult_BYTES = 32"
definition crypto_hash_sha256_BYTES :: nat where "crypto_hash_sha256_BYTES = 32"
definition crypto_secretbox_KEYBYTES :: nat where "crypto_secretbox_KEYBYTES = 32"
definition crypto_secretbox_NONCEBYTES :: nat where "crypto_secretbox_NONCEBYTES = 24"
definition crypto_secretbox_MACBYTES :: nat where "crypto_secretbox_MACBYTES = 16"

text \<open>\<open>#define HELLO_BYTES crypto_sign_BYTES + crypto_sign_PUBLICKEYBYTES\<close>\<close>

definition HELLO_BYTES :: nat where
  "HELLO_BYTES = crypto_sign_BYTES + crypto_sign_PUBLICKEYBYTES"

text \<open>
  Modelled from the spec: the message sizes are macros of \<open>shs1.h\<close>, which is not among
  the sources; the specification gives \<open>CHALLENGE = AUTH + BOX_PK = 64\<close>,
  \<open>AUTH_MSG = HELLO + 16 = 112\<close> and \<open>ACC_MSG = SIG + 16 = 80\<close>.
\<close>

definition SHS1_CLIENT_CHALLENGE_BYTES :: nat where "SHS1_CLIENT_CHALLENGE_BYTES = 64"
definition SHS1_SERVER_CHALLENGE_BYTES :: nat where "SHS1_SERVER_CHALLENGE_BYTES = 64"
definition SHS1_CLIENT_AUTH_BYTES :: nat where "SHS1_CLIENT_AUTH_BYTES = 112"
definition SHS1_SERVER_ACC_BYTES :: nat where "SHS1_SERVER_ACC_BYTES = 80"

lemmas sizes =
  crypto_auth_BYTES_def crypto_auth_KEYBYTES_def crypto_sign_BYTES_def
  crypto_sign_PUBLICKEYBYTES_def crypto_sign_SECRETKEYBYTES_def
  crypto_box_PUBLICKEYBYTES_def crypto_box_SECRETKEYBYTES_def crypto_box_NONCEBYTES_def
  crypto_scalarmult_BYTES_def crypto_hash_sha256_BYTES_def crypto_secretbox_KEYBYTES_def
  crypto_secretbox_NONCEBYTES_def crypto_secretbox_MACBYTES_def
  HELLO_BYTES_def SHS1_CLIENT_CHALLENGE_BYTES_def SHS1_SERVER_CHALLENGE_BYTES_def
  SHS1_CLIENT_AUTH_BYTES_def SHS1_SERVER_ACC_BYTES_def

text \<open>\<open>static unsigned char zero_nonce[crypto_box_NONCEBYTES] = {0};\<close>\<close>

definition zero_nonce :: bytes where
  "zero_nonce = replicate crypto_box_NONCEBYTES 0"

text \<open>
  The functions of libsodium that \<open>shs1.c\<close> calls. The library is not part of the
  repository, so it is a parameter of every operation. A call that reports failure through
  its return code is \<open>None\<close> (or \<open>False\<close> for the two verifications); the bytes a
  successful call writes to its output pointer are the value it returns here. The key
  conversions and \<open>crypto_secretbox_open_easy\<close> check before they write, so a failing call
  leaves its output buffer as it was. A failing \<open>crypto_scalarmult\<close> may have written the
  all-zero product before it reports it, or nothing, depending on the implementation the
  library selects: \<open>crypto_scalarmult_failed c q n p\<close> is the content of its output buffer
  after the failing call, \<open>q\<close> the content before. The two key relations say
  which (public, secret) pairs the library's key generation produces; the code never calls
  key generation, they only serve to say what legal inputs are.
\<close>

record sodium =
  crypto_auth :: "bytes \<Rightarrow> bytes \<Rightarrow> bytes"
  crypto_auth_verify :: "bytes \<Rightarrow> bytes \<Rightarrow> bytes \<Rightarrow> bool"
  crypto_scalarmult :: "bytes \<Rightarrow> bytes \<Rightarrow> bytes option"
  crypto_scalarmult_failed :: "bytes \<Rightarrow> bytes \<Rightarrow> bytes \<Rightarrow> bytes"
  crypto_sign_ed25519_pk_to_curve25519 :: "bytes \<Rightarrow> bytes option"
  crypto_sign_ed25519_sk_to_curve25519 :: "bytes \<Rightarrow> bytes option"
  crypto_hash_sha256 :: "bytes \<Rightarrow> bytes"
  crypto_sign_detached :: "bytes \<Rightarrow> bytes \<Rightarrow> bytes"
  crypto_sign_verify_detached :: "bytes \<Rightarrow> bytes \<Rightarrow> bytes \<Rightarrow> bool"
  crypto_secretbox_easy :: "bytes \<Rightarrow> bytes \<Rightarrow> bytes \<Rightarrow> bytes"
  crypto_secretbox_open_easy :: "bytes \<Rightarrow> bytes \<Rightarrow> bytes \<Rightarrow> bytes option"
  box_keypair :: "bytes \<Rightarrow> bytes \<Rightarrow> bool"
  sign_keypair :: "bytes \<Rightarrow> bytes \<Rightarrow> bool"

text \<open>
  Argument order: \<open>crypto_auth c msg key\<close>, \<open>crypto_auth_verify c tag msg key\<close>,
  \<open>crypto_scalarmult c n p\<close>, \<open>crypto_sign_detached c msg sk\<close>,
  \<open>crypto_sign_verify_detached c sig msg pk\<close>, \<open>crypto_secretbox_easy c msg nonce key\<close>,
  \<open>crypto_secretbox_open_easy c ciphertext nonce key\<close>; \<open>box_keypair c pk sk\<close> and
  \<open>sign_keypair c pk sk\<close>.
\<close>

section \<open>The client\<close>

text \<open>
  \<open>struct SHS1_Client\<close>: six pointers to the caller's inputs, then five byte arrays. The
  arrays have alignment 1, so they lie back to back in declaration order; \<open>c_mem\<close> is that
  block of memory and the \<open>c_off_\<close> constants are the offsets of the arrays in it.
\<close>

record SHS1_Client =
  c_app :: bytes
  c_pub :: bytes
  c_sec :: bytes
  c_eph_pub :: bytes
  c_eph_sec :: bytes
  c_server_pub :: bytes
  c_mem :: bytes

definition c_off_shared_secret :: nat where
  "c_off_shared_secret = 0"
definition c_off_server_lterm_shared :: nat where
  "c_off_server_lterm_shared = c_off_shared_secret + crypto_scalarmult_BYTES"
definition c_off_hello :: nat where
  "c_off_hello = c_off_server_lterm_shared + crypto_scalarmult_BYTES"
definition c_off_shared_hash :: nat where
  "c_off_shared_hash = c_off_hello + HELLO_BYTES"
definition c_off_server_eph_pub :: nat where
  "c_off_server_eph_pub = c_off_shared_hash + crypto_hash_sha256_BYTES"
definition c_mem_size :: nat where
  "c_mem_size = c_off_server_eph_pub + crypto_box_PUBLICKEYBYTES"

lemmas c_offsets =
  c_off_shared_secret_def c_off_server_lterm_shared_def c_off_hello_def
  c_off_shared_hash_def c_off_server_eph_pub_def c_mem_size_def

text \<open>The named fields of a client state, read from its memory.\<close>

definition c_shared_secret :: "SHS1_Client \<Rightarrow> bytes" where
  "c_shared_secret cl = slice c_off_shared_secret crypto_scalarmult_BYTES (c_mem cl)"
definition c_server_lterm_shared :: "SHS1_Client \<Rightarrow> bytes" where
  "c_server_lterm_shared cl = slice c_off_server_lterm_shared crypto_scalarmult_BYTES (c_mem cl)"
definition c_hello :: "SHS1_Client \<Rightarrow> bytes" where
  "c_hello cl = slice c_off_hello HELLO_BYTES (c_mem cl)"
definition c_shared_hash :: "SHS1_Client \<Rightarrow> bytes" where
  "c_shared_hash cl = slice c_off_shared_hash crypto_hash_sha256_BYTES (c_mem cl)"
definition c_server_eph_pub :: "SHS1_Client \<Rightarrow> bytes" where
  "c_server_eph_pub cl = slice c_off_server_eph_pub crypto_box_PUBLICKEYBYTES (c_mem cl)"

lemmas c_fields =
  c_shared_secret_def c_server_lterm_shared_def c_hello_def c_shared_hash_def
  c_server_eph_pub_def

text \<open>
  \<open>shs1_init_client\<close>: \<open>malloc\<close> returns memory of indeterminate content, which is the
  argument \<open>raw\<close>; the six pointers are stored.
\<close>

definition shs1_init_client ::
  "bytes \<Rightarrow> bytes \<Rightarrow> bytes \<Rightarrow> bytes \<Rightarrow> bytes \<Rightarrow> bytes \<Rightarrow> bytes \<Rightarrow> SHS1_Client" where
  "shs1_init_client raw app pub sec eph_pub eph_sec server_pub =
     \<lparr>c_app = app, c_pub = pub, c_sec = sec, c_eph_pub = eph_pub, c_eph_sec = eph_sec,
      c_server_pub = server_pub, c_mem = raw\<rparr>"

text \<open>\<open>shs1_create_client_challenge\<close>: the challenge buffer after the call.\<close>

definition shs1_create_client_challenge :: "sodium \<Rightarrow> bytes \<Rightarrow> SHS1_Client \<Rightarrow> bytes" where
  "shs1_create_client_challenge c challenge client =
     (let challenge1 = store 0
            (crypto_auth c (take crypto_box_PUBLICKEYBYTES (c_eph_pub client))
               (take crypto_auth_KEYBYTES (c_app client))) challenge
      in store crypto_auth_BYTES (take crypto_box_PUBLICKEYBYTES (c_eph_pub client)) challenge1)"

text \<open>\<open>shs1_verify_server_challenge\<close>: the returned \<open>bool\<close> and the client state after the call.\<close>

definition shs1_verify_server_challenge ::
  "sodium \<Rightarrow> bytes \<Rightarrow> SHS1_Client \<Rightarrow> bool \<times> SHS1_Client" where
  "shs1_verify_server_challenge c challenge client =
     (if \<not> crypto_auth_verify c (slice 0 crypto_auth_BYTES challenge)
             (slice crypto_auth_BYTES crypto_box_PUBLICKEYBYTES challenge)
             (take crypto_auth_KEYBYTES (c_app client))
      then (False, client)
      else (True, client\<lparr>c_mem := store c_off_server_eph_pub
              (slice crypto_auth_BYTES crypto_box_PUBLICKEYBYTES challenge) (c_mem client)\<rparr>))"

text \<open>
  The two buffers that the client builds with one \<open>memcpy\<close> over two adjacent fields:
  \<open>tmp\<close> (\<open>memcpy(tmp + crypto_auth_KEYBYTES, client->shared_secret, 2 * crypto_scalarmult_BYTES)\<close>,
  in \<open>shs1_create_client_auth\<close> and \<open>shs1_verify_server_acc\<close>) and \<open>expected\<close>
  (\<open>memcpy(expected + crypto_auth_KEYBYTES, client->hello, HELLO_BYTES + crypto_hash_sha256_BYTES)\<close>).
  Each has a second version that copies field by field, as the comment under the
  \<open>memcpy\<close> spells out.
\<close>

definition c_tmp_memcpy :: "bytes \<Rightarrow> bytes \<Rightarrow> bytes" where
  "c_tmp_memcpy app m =
     take crypto_auth_KEYBYTES app
     @ slice c_off_shared_secret (2 * crypto_scalarmult_BYTES) m"

definition c_tmp_fieldwise :: "bytes \<Rightarrow> bytes \<Rightarrow> bytes" where
  "c_tmp_fieldwise app m =
     take crypto_auth_KEYBYTES app
     @ slice c_off_shared_secret crypto_scalarmult_BYTES m
     @ slice c_off_server_lterm_shared crypto_scalarmult_BYTES m"

definition c_expected_memcpy :: "bytes \<Rightarrow> bytes \<Rightarrow> bytes" where
  "c_expected_memcpy app m =
     take crypto_auth_KEYBYTES app
     @ slice c_off_hello (HELLO_BYTES + crypto_hash_sha256_BYTES) m"

definition c_expected_fieldwise :: "bytes \<Rightarrow> bytes \<Rightarrow> bytes" where
  "c_expected_fieldwise app m =
     take crypto_auth_KEYBYTES app
     @ slice c_off_hello HELLO_BYTES m
     @ slice c_off_shared_hash crypto_hash_sha256_BYTES m"

text \<open>
  \<open>shs1_create_client_auth\<close> returns an \<open>int\<close>. \<open>return false;\<close> in a function of return
  type \<open>int\<close> converts \<open>false\<close> to \<open>0\<close>.
\<close>

definition false_as_int :: int where
  "false_as_int = 0"

text \<open>
  The result is the returned \<open>int\<close>, the \<open>auth\<close> buffer and the client state after the
  call. The local buffers \<open>tmp\<close> and \<open>tmp2\<close> are written from their first byte to their
  last before they are read, so each is the concatenation of what is copied into it.
\<close>

definition shs1_create_client_auth ::
  "sodium \<Rightarrow> bytes \<Rightarrow> SHS1_Client \<Rightarrow> int \<times> bytes \<times> SHS1_Client" where
  "shs1_create_client_auth c auth client =
     (case crypto_scalarmult c (take crypto_box_SECRETKEYBYTES (c_eph_sec client))
             (slice c_off_server_eph_pub crypto_box_PUBLICKEYBYTES (c_mem client)) of
        None \<Rightarrow>
          (false_as_int, auth,
           client\<lparr>c_mem := store c_off_shared_secret
             (crypto_scalarmult_failed c
                (slice c_off_shared_secret crypto_scalarmult_BYTES (c_mem client))
                (take crypto_box_SECRETKEYBYTES (c_eph_sec client))
                (slice c_off_server_eph_pub crypto_box_PUBLICKEYBYTES (c_mem client)))
             (c_mem client)\<rparr>)
      | Some q1 \<Rightarrow>
        let m1 = store c_off_shared_secret q1 (c_mem client) in
        (case crypto_sign_ed25519_pk_to_curve25519 c
                (take crypto_sign_PUBLICKEYBYTES (c_server_pub client)) of
           None \<Rightarrow> (- 1, auth, client\<lparr>c_mem := m1\<rparr>)
         | Some curve_server_pub \<Rightarrow>
           (case crypto_scalarmult c (take crypto_box_SECRETKEYBYTES (c_eph_sec client))
                   curve_server_pub of
              None \<Rightarrow>
                (- 2, auth,
                 client\<lparr>c_mem := store c_off_server_lterm_shared
                   (crypto_scalarmult_failed c
                      (slice c_off_server_lterm_shared crypto_scalarmult_BYTES m1)
                      (take crypto_box_SECRETKEYBYTES (c_eph_sec client)) curve_server_pub)
                   m1\<rparr>)
            | Some q2 \<Rightarrow>
              let m2 = store c_off_server_lterm_shared q2 m1;
                  tmp = c_tmp_memcpy (c_app client) m2;
                  m3 = store c_off_shared_hash
                         (crypto_hash_sha256 c
                            (slice c_off_shared_secret crypto_scalarmult_BYTES m2)) m2;
                  tmp2 = take crypto_auth_KEYBYTES (c_app client)
                         @ take crypto_sign_PUBLICKEYBYTES (c_server_pub client)
                         @ slice c_off_shared_hash crypto_hash_sha256_BYTES m3;
                  sig = crypto_sign_detached c tmp2
                          (take crypto_sign_SECRETKEYBYTES (c_sec client));
                  m4 = store c_off_hello sig m3;
                  m5 = store (c_off_hello + crypto_sign_BYTES)
                         (take crypto_sign_PUBLICKEYBYTES (c_pub client)) m4;
                  box_sec = crypto_hash_sha256 c tmp
              in (0,
                  store 0 (crypto_secretbox_easy c (slice c_off_hello HELLO_BYTES m5)
                             zero_nonce box_sec) auth,
                  client\<lparr>c_mem := m5\<rparr>))))"

text \<open>
  \<open>shs1_verify_server_acc\<close>. \<open>BOX_SEC_STORAGE\<close> is \<open>client->shared_secret\<close> and
  \<open>SIG_STORAGE\<close> is \<open>client->hello\<close>. The local \<open>client_lterm_shared\<close> is computed and
  never read; the same product is computed again into the last 32 bytes of \<open>tmp\<close>.
\<close>

definition shs1_verify_server_acc ::
  "sodium \<Rightarrow> bytes \<Rightarrow> SHS1_Client \<Rightarrow> bool \<times> SHS1_Client" where
  "shs1_verify_server_acc c acc client =
     (case crypto_sign_ed25519_sk_to_curve25519 c
             (take crypto_sign_SECRETKEYBYTES (c_sec client)) of
        None \<Rightarrow> (False, client)
      | Some curve_sec \<Rightarrow>
        (case crypto_scalarmult c curve_sec
                (slice c_off_server_eph_pub crypto_box_PUBLICKEYBYTES (c_mem client)) of
           None \<Rightarrow> (False, client)
         | Some client_lterm_shared \<Rightarrow>
           (case crypto_scalarmult c curve_sec
                   (slice c_off_server_eph_pub crypto_box_PUBLICKEYBYTES (c_mem client)) of
              None \<Rightarrow> (False, client)
            | Some q3 \<Rightarrow>
              let tmp = c_tmp_memcpy (c_app client) (c_mem client) @ q3;
                  m1 = store c_off_shared_secret
                         (crypto_hash_sha256 c
                            (take (crypto_auth_KEYBYTES + 3 * crypto_scalarmult_BYTES) tmp))
                         (c_mem client);
                  expected = c_expected_memcpy (c_app client) m1
              in (case crypto_secretbox_open_easy c (take SHS1_SERVER_ACC_BYTES acc) zero_nonce
                         (slice c_off_shared_secret crypto_secretbox_KEYBYTES m1) of
                    None \<Rightarrow> (False, client\<lparr>c_mem := m1\<rparr>)
                  | Some sig \<Rightarrow>
                    let m2 = store c_off_hello sig m1
                    in (crypto_sign_verify_detached c (slice c_off_hello crypto_sign_BYTES m2)
                          expected (take crypto_sign_PUBLICKEYBYTES (c_server_pub client)),
                        client\<lparr>c_mem := m2\<rparr>)))))"

section \<open>The outcome\<close>

text \<open>
  \<open>SHS1_Outcome\<close> is declared in \<open>shs1.h\<close>, which is not among the sources, so the offsets
  of its four fields are a parameter of the two outcome functions. The outcome is the memory
  that starts at the \<open>outcome\<close> pointer.
\<close>

record outcome_layout =
  off_encryption_key :: nat
  off_encryption_nonce :: nat
  off_decryption_key :: nat
  off_decryption_nonce :: nat

text \<open>
  Modelled from the spec: the declaration of \<open>SHS1_Outcome\<close> in \<open>shs1.h\<close> is missing; the
  specification gives the structure as
  \<open>encryption_key[32] || encryption_nonce[24] || decryption_key[32] || decryption_nonce[24]\<close>.
\<close>

definition spec_outcome_layout :: outcome_layout where
  "spec_outcome_layout =
     \<lparr>off_encryption_key = 0, off_encryption_nonce = 32,
      off_decryption_key = 56, off_decryption_nonce = 88\<rparr>"

text \<open>
  A layout is well formed for a buffer when the four fields (of 32, 24, 32 and 24 bytes)
  lie in the buffer in declaration order without overlapping.
\<close>

definition outcome_layout_ok :: "outcome_layout \<Rightarrow> bytes \<Rightarrow> bool" where
  "outcome_layout_ok L outcome \<longleftrightarrow>
     off_encryption_key L + crypto_secretbox_KEYBYTES \<le> off_encryption_nonce L \<and>
     off_encryption_nonce L + crypto_secretbox_NONCEBYTES \<le> off_decryption_key L \<and>
     off_decryption_key L + crypto_secretbox_KEYBYTES \<le> off_decryption_nonce L \<and>
     off_decryption_nonce L + crypto_secretbox_NONCEBYTES \<le> length outcome"

definition encryption_key :: "outcome_layout \<Rightarrow> bytes \<Rightarrow> bytes" where
  "encryption_key L outcome = slice (off_encryption_key L) crypto_secretbox_KEYBYTES outcome"
definition encryption_nonce :: "outcome_layout \<Rightarrow> bytes \<Rightarrow> bytes" where
  "encryption_nonce L outcome =
     slice (off_encryption_nonce L) crypto_secretbox_NONCEBYTES outcome"
definition decryption_key :: "outcome_layout \<Rightarrow> bytes \<Rightarrow> bytes" where
  "decryption_key L outcome = slice (off_decryption_key L) crypto_secretbox_KEYBYTES outcome"
definition decryption_nonce :: "outcome_layout \<Rightarrow> bytes \<Rightarrow> bytes" where
  "decryption_nonce L outcome =
     slice (off_decryption_nonce L) crypto_secretbox_NONCEBYTES outcome"

lemmas outcome_fields =
  encryption_key_def encryption_nonce_def decryption_key_def decryption_nonce_def

text \<open>
  \<open>shs1_client_outcome\<close>: the outcome buffer and the client state after the call.
  \<open>TMP_CLIENT_OUTCOME\<close> is \<open>client->hello\<close>, \<open>BOX_SEC_STORAGE\<close> is \<open>client->shared_secret\<close>.
  Each \<open>crypto_auth\<close> writes its whole tag at the offset of a nonce field.
\<close>

definition shs1_client_outcome ::
  "sodium \<Rightarrow> outcome_layout \<Rightarrow> bytes \<Rightarrow> SHS1_Client \<Rightarrow> bytes \<times> SHS1_Client" where
  "shs1_client_outcome c L outcome client =
     (let m1 = store c_off_hello
                 (crypto_hash_sha256 c
                    (slice c_off_shared_secret crypto_hash_sha256_BYTES (c_mem client)))
                 (c_mem client);
          m2 = store (c_off_hello + crypto_hash_sha256_BYTES)
                 (take crypto_sign_PUBLICKEYBYTES (c_server_pub client)) m1;
          o1 = store (off_encryption_key L)
                 (crypto_hash_sha256 c
                    (slice c_off_hello (crypto_hash_sha256_BYTES + crypto_sign_PUBLICKEYBYTES) m2))
                 outcome;
          o2 = store (off_encryption_nonce L)
                 (crypto_auth c (slice c_off_server_eph_pub crypto_box_PUBLICKEYBYTES m2)
                    (take crypto_auth_KEYBYTES (c_app client))) o1;
          m3 = store (c_off_hello + crypto_hash_sha256_BYTES)
                 (take crypto_sign_PUBLICKEYBYTES (c_pub client)) m2;
          o3 = store (off_decryption_key L)
                 (crypto_hash_sha256 c
                    (slice c_off_hello (crypto_hash_sha256_BYTES + crypto_sign_PUBLICKEYBYTES) m3))
                 o2;
          o4 = store (off_decryption_nonce L)
                 (crypto_auth c (take crypto_box_PUBLICKEYBYTES (c_eph_pub client))
                    (take crypto_auth_KEYBYTES (c_app client))) o3
      in (o4, client\<lparr>c_mem := m3\<rparr>))"

section \<open>The server\<close>

text \<open>
  \<open>struct SHS1_Server\<close>: five pointers to the caller's inputs, then five byte arrays, laid
  out in \<open>s_mem\<close> in declaration order.
\<close>

record SHS1_Server =
  s_app :: bytes
  s_pub :: bytes
  s_sec :: bytes
  s_eph_pub :: bytes
  s_eph_sec :: bytes
  s_mem :: bytes

definition s_off_client_hello :: nat where
  "s_off_client_hello = 0"
definition s_off_shared_hash :: nat where
  "s_off_shared_hash = s_off_client_hello + HELLO_BYTES"
definition s_off_client_eph_pub :: nat where
  "s_off_client_eph_pub = s_off_shared_hash + crypto_hash_sha256_BYTES"
definition s_off_client_pub :: nat where
  "s_off_client_pub = s_off_client_eph_pub + crypto_box_PUBLICKEYBYTES"
definition s_off_box_sec :: nat where
  "s_off_box_sec = s_off_client_pub + crypto_sign_PUBLICKEYBYTES"
definition s_mem_size :: nat where
  "s_mem_size = s_off_box_sec + crypto_hash_sha256_BYTES"

lemmas s_offsets =
  s_off_client_hello_def s_off_shared_hash_def s_off_client_eph_pub_def
  s_off_client_pub_def s_off_box_sec_def s_mem_size_def

definition s_client_hello :: "SHS1_Server \<Rightarrow> bytes" where
  "s_client_hello sv = slice s_off_client_hello HELLO_BYTES (s_mem sv)"
definition s_shared_hash :: "SHS1_Server \<Rightarrow> bytes" where
  "s_shared_hash sv = slice s_off_shared_hash crypto_hash_sha256_BYTES (s_mem sv)"
definition s_client_eph_pub :: "SHS1_Server \<Rightarrow> bytes" where
  "s_client_eph_pub sv = slice s_off_client_eph_pub crypto_box_PUBLICKEYBYTES (s_mem sv)"
definition s_client_pub :: "SHS1_Server \<Rightarrow> bytes" where
  "s_client_pub sv = slice s_off_client_pub crypto_sign_PUBLICKEYBYTES (s_mem sv)"
definition s_box_sec :: "SHS1_Server \<Rightarrow> bytes" where
  "s_box_sec sv = slice s_off_box_sec crypto_hash_sha256_BYTES (s_mem sv)"

lemmas s_fields =
  s_client_hello_def s_shared_hash_def s_client_eph_pub_def s_client_pub_def s_box_sec_def

definition shs1_init_server ::
  "bytes \<Rightarrow> bytes \<Rightarrow> bytes \<Rightarrow> bytes \<Rightarrow> bytes \<Rightarrow> bytes \<Rightarrow> SHS1_Server" where
  "shs1_init_server raw app pub sec eph_pub eph_sec =
     \<lparr>s_app = app, s_pub = pub, s_sec = sec, s_eph_pub = eph_pub, s_eph_sec = eph_sec,
      s_mem = raw\<rparr>"

definition shs1_verify_client_challenge ::
  "sodium \<Rightarrow> bytes \<Rightarrow> SHS1_Server \<Rightarrow> bool \<times> SHS1_Server" where
  "shs1_verify_client_challenge c challenge server =
     (if \<not> crypto_auth_verify c (slice 0 crypto_auth_BYTES challenge)
             (slice crypto_auth_BYTES crypto_box_PUBLICKEYBYTES challenge)
             (take crypto_auth_KEYBYTES (s_app server))
      then (False, server)
      else (True, server\<lparr>s_mem := store s_off_client_eph_pub
              (slice crypto_auth_BYTES crypto_box_PUBLICKEYBYTES challenge) (s_mem server)\<rparr>))"

definition shs1_create_server_challenge :: "sodium \<Rightarrow> bytes \<Rightarrow> SHS1_Server \<Rightarrow> bytes" where
  "shs1_create_server_challenge c challenge server =
     (let challenge1 = store 0
            (crypto_auth c (take crypto_box_PUBLICKEYBYTES (s_eph_pub server))
               (take crypto_auth_KEYBYTES (s_app server))) challenge
      in store crypto_auth_BYTES (take crypto_box_PUBLICKEYBYTES (s_eph_pub server)) challenge1)"

text \<open>
  \<open>shs1_verify_client_auth\<close>. \<open>CURVE_SEC\<close>, \<open>TMP2\<close> and \<open>CURVE_CLIENT_PUB\<close> all are
  \<open>server->shared_hash\<close>. The local \<open>tmp\<close> is filled front to back: \<open>tmp96\<close> is its first
  96 bytes once the second product is written, \<open>tmp\<close> the whole of it after the third.
\<close>

definition shs1_verify_client_auth ::
  "sodium \<Rightarrow> bytes \<Rightarrow> SHS1_Server \<Rightarrow> bool \<times> SHS1_Server" where
  "shs1_verify_client_auth c auth server =
     (case crypto_scalarmult c (take crypto_box_SECRETKEYBYTES (s_eph_sec server))
             (slice s_off_client_eph_pub crypto_box_PUBLICKEYBYTES (s_mem server)) of
        None \<Rightarrow> (False, server)
      | Some q1 \<Rightarrow>
        (case crypto_sign_ed25519_sk_to_curve25519 c
                (take crypto_sign_SECRETKEYBYTES (s_sec server)) of
           None \<Rightarrow> (False, server)
         | Some curve_sec \<Rightarrow>
           let m1 = store s_off_shared_hash curve_sec (s_mem server) in
           (case crypto_scalarmult c (slice s_off_shared_hash crypto_scalarmult_BYTES m1)
                   (slice s_off_client_eph_pub crypto_box_PUBLICKEYBYTES m1) of
              None \<Rightarrow> (False, server\<lparr>s_mem := m1\<rparr>)
            | Some q2 \<Rightarrow>
              let tmp96 = take crypto_auth_KEYBYTES (s_app server) @ q1 @ q2;
                  m2 = store s_off_shared_hash
                         (crypto_hash_sha256 c
                            (take (crypto_auth_KEYBYTES + 2 * crypto_scalarmult_BYTES) tmp96))
                         m1
              in (case crypto_secretbox_open_easy c (take SHS1_CLIENT_AUTH_BYTES auth)
                         zero_nonce (slice s_off_shared_hash crypto_secretbox_KEYBYTES m2) of
                    None \<Rightarrow> (False, server\<lparr>s_mem := m2\<rparr>)
                  | Some hello \<Rightarrow>
                    let m3 = store s_off_client_hello hello m2;
                        m4 = store s_off_client_pub
                               (slice (s_off_client_hello + crypto_sign_BYTES)
                                  crypto_sign_PUBLICKEYBYTES m3) m3
                    in (case crypto_sign_ed25519_pk_to_curve25519 c
                               (slice s_off_client_pub crypto_sign_PUBLICKEYBYTES m4) of
                          None \<Rightarrow> (False, server\<lparr>s_mem := m4\<rparr>)
                        | Some curve_client_pub \<Rightarrow>
                          let m5 = store s_off_shared_hash curve_client_pub m4 in
                          (case crypto_scalarmult c
                                  (take crypto_box_SECRETKEYBYTES (s_eph_sec server))
                                  (slice s_off_shared_hash crypto_scalarmult_BYTES m5) of
                             None \<Rightarrow> (False, server\<lparr>s_mem := m5\<rparr>)
                           | Some q3 \<Rightarrow>
                             let tmp = tmp96 @ q3;
                                 m6 = store s_off_shared_hash
                                        (crypto_hash_sha256 c
                                           (slice crypto_auth_KEYBYTES crypto_scalarmult_BYTES tmp))
                                        m5;
                                 expected = take crypto_auth_KEYBYTES (s_app server)
                                            @ take crypto_sign_PUBLICKEYBYTES (s_pub server)
                                            @ slice s_off_shared_hash crypto_hash_sha256_BYTES m6
                             in if \<not> crypto_sign_verify_detached c
                                       (slice s_off_client_hello crypto_sign_BYTES m6) expected
                                       (slice s_off_client_pub crypto_sign_PUBLICKEYBYTES m6)
                                then (False, server\<lparr>s_mem := m6\<rparr>)
                                else (True, server\<lparr>s_mem := store s_off_box_sec
                                        (crypto_hash_sha256 c
                                           (take (crypto_auth_KEYBYTES + 3 * crypto_scalarmult_BYTES)
                                              tmp)) m6\<rparr>)))))))"

text \<open>
  \<open>to_sign\<close> of \<open>shs1_create_server_acc\<close>, built with one \<open>memcpy\<close> of
  \<open>HELLO_BYTES + crypto_hash_sha256_BYTES\<close> bytes from \<open>server->client_hello\<close>, and its
  field-by-field version from the comment.
\<close>

definition s_to_sign_memcpy :: "bytes \<Rightarrow> bytes \<Rightarrow> bytes" where
  "s_to_sign_memcpy app m =
     take crypto_auth_KEYBYTES app
     @ slice s_off_client_hello (HELLO_BYTES + crypto_hash_sha256_BYTES) m"

definition s_to_sign_fieldwise :: "bytes \<Rightarrow> bytes \<Rightarrow> bytes" where
  "s_to_sign_fieldwise app m =
     take crypto_auth_KEYBYTES app
     @ slice s_off_client_hello HELLO_BYTES m
     @ slice s_off_shared_hash crypto_hash_sha256_BYTES m"

text \<open>\<open>shs1_create_server_acc\<close>: the \<open>acc\<close> buffer and the server state after the call.\<close>

definition shs1_create_server_acc ::
  "sodium \<Rightarrow> bytes \<Rightarrow> SHS1_Server \<Rightarrow> bytes \<times> SHS1_Server" where
  "shs1_create_server_acc c acc server =
     (let to_sign = s_to_sign_memcpy (s_app server) (s_mem server);
          m1 = store s_off_client_hello
                 (crypto_sign_detached c to_sign
                    (take crypto_sign_SECRETKEYBYTES (s_sec server))) (s_mem server)
      in (store 0 (crypto_secretbox_easy c (slice s_off_client_hello crypto_sign_BYTES m1)
                     zero_nonce (slice s_off_box_sec crypto_secretbox_KEYBYTES m1)) acc,
          server\<lparr>s_mem := m1\<rparr>))"

definition shs1_server_outcome ::
  "sodium \<Rightarrow> outcome_layout \<Rightarrow> bytes \<Rightarrow> SHS1_Server \<Rightarrow> bytes \<times> SHS1_Server" where
  "shs1_server_outcome c L outcome server =
     (let m1 = store s_off_client_hello
                 (crypto_hash_sha256 c
                    (slice s_off_box_sec crypto_hash_sha256_BYTES (s_mem server)))
                 (s_mem server);
          m2 = store (s_off_client_hello + crypto_hash_sha256_BYTES)
                 (slice s_off_client_pub crypto_sign_PUBLICKEYBYTES m1) m1;
          o1 = store (off_encryption_key L)
                 (crypto_hash_sha256 c
                    (slice s_off_client_hello
                       (crypto_hash_sha256_BYTES + crypto_sign_PUBLICKEYBYTES) m2))
                 outcome;
          o2 = store (off_encryption_nonce L)
                 (crypto_auth c (slice s_off_client_eph_pub crypto_box_PUBLICKEYBYTES m2)
                    (take crypto_auth_KEYBYTES (s_app server))) o1;
          m3 = store (s_off_client_hello + crypto_hash_sha256_BYTES)
                 (take crypto_sign_PUBLICKEYBYTES (s_pub server)) m2;
          o3 = store (off_decryption_key L)
                 (crypto_hash_sha256 c
                    (slice s_off_client_hello
                       (crypto_hash_sha256_BYTES + crypto_sign_PUBLICKEYBYTES) m3))
                 o2;
          o4 = store (off_decryption_nonce L)
                 (crypto_auth c (take crypto_box_PUBLICKEYBYTES (s_eph_pub server))
                    (take crypto_auth_KEYBYTES (s_app server))) o3
      in (o4, server\<lparr>s_mem := m3\<rparr>))"

section \<open>A handshake, and what the library is assumed to do\<close>

text \<open>
  The sizes of what the library writes: every call fills its output buffer with a fixed
  number of bytes, a secretbox is \<open>crypto_secretbox_MACBYTES\<close> longer than its plaintext.
\<close>

definition sodium_sizes :: "sodium \<Rightarrow> bool" where
  "sodium_sizes c \<longleftrightarrow>
     (\<forall>m k. length (crypto_auth c m k) = crypto_auth_BYTES) \<and>
     (\<forall>n p q. crypto_scalarmult c n p = Some q \<longrightarrow> length q = crypto_scalarmult_BYTES) \<and>
     (\<forall>pk q. crypto_sign_ed25519_pk_to_curve25519 c pk = Some q \<longrightarrow>
        length q = crypto_scalarmult_BYTES) \<and>
     (\<forall>sk q. crypto_sign_ed25519_sk_to_curve25519 c sk = Some q \<longrightarrow>
        length q = crypto_scalarmult_BYTES) \<and>
     (\<forall>m. length (crypto_hash_sha256 c m) = crypto_hash_sha256_BYTES) \<and>
     (\<forall>m sk. length (crypto_sign_detached c m sk) = crypto_sign_BYTES) \<and>
     (\<forall>m n k. length (crypto_secretbox_easy c m n k) = length m + crypto_secretbox_MACBYTES) \<and>
     (\<forall>ct n k m. crypto_secretbox_open_easy c ct n k = Some m \<longrightarrow>
        length m + crypto_secretbox_MACBYTES = length ct)"

text \<open>
  Verification accepts exactly the tag that \<open>crypto_auth\<close> computes, and a secretbox opens
  under the nonce and key it was sealed with.
\<close>

definition sodium_roundtrips :: "sodium \<Rightarrow> bool" where
  "sodium_roundtrips c \<longleftrightarrow>
     (\<forall>t m k. crypto_auth_verify c t m k \<longleftrightarrow> t = crypto_auth c m k) \<and>
     (\<forall>m n k. crypto_secretbox_open_easy c (crypto_secretbox_easy c m n k) n k = Some m)"

text \<open>
  Key pairs: they have the documented sizes; two Curve25519 pairs agree on their
  Diffie-Hellman secret, and computing it succeeds; an Ed25519 pair converts to a
  Curve25519 pair; a signature made with the secret key verifies under the public key.
\<close>

definition sodium_keys :: "sodium \<Rightarrow> bool" where
  "sodium_keys c \<longleftrightarrow>
     (\<forall>p s. box_keypair c p s \<longrightarrow>
        length p = crypto_box_PUBLICKEYBYTES \<and> length s = crypto_box_SECRETKEYBYTES) \<and>
     (\<forall>P S. sign_keypair c P S \<longrightarrow>
        length P = crypto_sign_PUBLICKEYBYTES \<and> length S = crypto_sign_SECRETKEYBYTES) \<and>
     (\<forall>p s p' s'. box_keypair c p s \<and> box_keypair c p' s' \<longrightarrow>
        (\<exists>q. crypto_scalarmult c s p' = Some q \<and> crypto_scalarmult c s' p = Some q)) \<and>
     (\<forall>P S. sign_keypair c P S \<longrightarrow>
        (\<exists>p s. crypto_sign_ed25519_pk_to_curve25519 c P = Some p \<and>
               crypto_sign_ed25519_sk_to_curve25519 c S = Some s \<and> box_keypair c p s)) \<and>
     (\<forall>P S m. sign_keypair c P S \<longrightarrow>
        crypto_sign_verify_detached c (crypto_sign_detached c m S) m P)"

text \<open>
  A state is well formed when the inputs have the sizes that the comments of the struct
  give and the arrays take up their declared size.
\<close>

definition client_ok :: "SHS1_Client \<Rightarrow> bool" where
  "client_ok client \<longleftrightarrow>
     length (c_app client) = crypto_auth_KEYBYTES \<and>
     length (c_pub client) = crypto_sign_PUBLICKEYBYTES \<and>
     length (c_sec client) = crypto_sign_SECRETKEYBYTES \<and>
     length (c_eph_pub client) = crypto_box_PUBLICKEYBYTES \<and>
     length (c_eph_sec client) = crypto_box_SECRETKEYBYTES \<and>
     length (c_server_pub client) = crypto_sign_PUBLICKEYBYTES \<and>
     length (c_mem client) = c_mem_size"

definition server_ok :: "SHS1_Server \<Rightarrow> bool" where
  "server_ok server \<longleftrightarrow>
     length (s_app server) = crypto_auth_KEYBYTES \<and>
     length (s_pub server) = crypto_sign_PUBLICKEYBYTES \<and>
     length (s_sec server) = crypto_sign_SECRETKEYBYTES \<and>
     length (s_eph_pub server) = crypto_box_PUBLICKEYBYTES \<and>
     length (s_eph_sec server) = crypto_box_SECRETKEYBYTES \<and>
     length (s_mem server) = s_mem_size"

text \<open>
  The buffers of a caller that runs a whole handshake: one for each of the four messages
  and one outcome for each side, with whatever content they have before the call.
\<close>

record handshake_buffers =
  b_client_challenge :: bytes
  b_server_challenge :: bytes
  b_client_auth :: bytes
  b_server_acc :: bytes
  b_client_outcome :: bytes
  b_server_outcome :: bytes

definition buffers_ok :: "outcome_layout \<Rightarrow> handshake_buffers \<Rightarrow> bool" where
  "buffers_ok L b \<longleftrightarrow>
     length (b_client_challenge b) = SHS1_CLIENT_CHALLENGE_BYTES \<and>
     length (b_server_challenge b) = SHS1_SERVER_CHALLENGE_BYTES \<and>
     length (b_client_auth b) = SHS1_CLIENT_AUTH_BYTES \<and>
     length (b_server_acc b) = SHS1_SERVER_ACC_BYTES \<and>
     outcome_layout_ok L (b_client_outcome b) \<and>
     outcome_layout_ok L (b_server_outcome b)"

text \<open>
  The eight operations in protocol order, each message handed to the peer as it was
  written, then the two outcomes. \<open>None\<close> when an operation reports failure.
\<close>

definition run_handshake ::
  "sodium \<Rightarrow> outcome_layout \<Rightarrow> handshake_buffers \<Rightarrow> SHS1_Client \<Rightarrow> SHS1_Server
     \<Rightarrow> (bytes \<times> bytes) option" where
  "run_handshake c L b client server =
     (let challenge_c = shs1_create_client_challenge c (b_client_challenge b) client;
          (ok1, server1) = shs1_verify_client_challenge c challenge_c server
      in if \<not> ok1 then None else
     (let challenge_s = shs1_create_server_challenge c (b_server_challenge b) server1;
          (ok2, client1) = shs1_verify_server_challenge c challenge_s client
      in if \<not> ok2 then None else
     (let (rc, auth, client2) = shs1_create_client_auth c (b_client_auth b) client1
      in if rc \<noteq> 0 then None else
     (let (ok3, server2) = shs1_verify_client_auth c auth server1
      in if \<not> ok3 then None else
     (let (acc, server3) = shs1_create_server_acc c (b_server_acc b) server2;
          (ok4, client3) = shs1_verify_server_acc c acc client2
      in if \<not> ok4 then None else
         Some (fst (shs1_client_outcome c L (b_client_outcome b) client3),
               fst (shs1_server_outcome c L (b_server_outcome b) server3)))))))"

text \<open>
  What the specification says of \<open>verify_auth\<close>, step by step on named values: the final
  box key and the client's public key when every step succeeds, \<open>None\<close> otherwise.
\<close>

definition verify_client_auth_steps ::
  "sodium \<Rightarrow> bytes \<Rightarrow> SHS1_Server \<Rightarrow> (bytes \<times> bytes) option" where
  "verify_client_auth_steps c auth server =
     (case crypto_scalarmult c (s_eph_sec server) (s_client_eph_pub server) of
        None \<Rightarrow> None
      | Some shared_secret \<Rightarrow>
     (case crypto_sign_ed25519_sk_to_curve25519 c (s_sec server) of
        None \<Rightarrow> None
      | Some curve_sec \<Rightarrow>
     (case crypto_scalarmult c curve_sec (s_client_eph_pub server) of
        None \<Rightarrow> None
      | Some client_eph_lterm_shared \<Rightarrow>
     (case crypto_secretbox_open_easy c auth zero_nonce
             (crypto_hash_sha256 c
                (s_app server @ shared_secret @ client_eph_lterm_shared)) of
        None \<Rightarrow> None
      | Some hello \<Rightarrow>
     (case crypto_sign_ed25519_pk_to_curve25519 c (drop crypto_sign_BYTES hello) of
        None \<Rightarrow> None
      | Some curve_client_pub \<Rightarrow>
     (case crypto_scalarmult c (s_eph_sec server) curve_client_pub of
        None \<Rightarrow> None
      | Some lterm_eph_client_shared \<Rightarrow>
        if crypto_sign_verify_detached c (take crypto_sign_BYTES hello)
             (s_app server @ s_pub server @ crypto_hash_sha256 c shared_secret)
             (drop crypto_sign_BYTES hello)
        then Some (crypto_hash_sha256 c
                     (s_app server @ shared_secret @ client_eph_lterm_shared
                      @ lterm_eph_client_shared),
                   drop crypto_sign_BYTES hello)
        else None))))))"

text \<open>
  The hello that \<open>verify_auth\<close> opens: the plaintext of the auth when the steps up to and
  including the opening of the box succeed, \<open>None\<close> otherwise.
\<close>

definition verify_client_auth_opened :: "sodium \<Rightarrow> bytes \<Rightarrow> SHS1_Server \<Rightarrow> bytes option" where
  "verify_client_auth_opened c auth server =
     (case crypto_scalarmult c (s_eph_sec server) (s_client_eph_pub server) of
        None \<Rightarrow> None
      | Some shared_secret \<Rightarrow>
     (case crypto_sign_ed25519_sk_to_curve25519 c (s_sec server) of
        None \<Rightarrow> None
      | Some curve_sec \<Rightarrow>
     (case crypto_scalarmult c curve_sec (s_client_eph_pub server) of
        None \<Rightarrow> None
      | Some client_eph_lterm_shared \<Rightarrow>
        crypto_secretbox_open_easy c auth zero_nonce
          (crypto_hash_sha256 c
             (s_app server @ shared_secret @ client_eph_lterm_shared)))))"

text \<open>What the specification says of \<open>verify_acc\<close>, in the same way.\<close>

definition verify_server_acc_steps :: "sodium \<Rightarrow> bytes \<Rightarrow> SHS1_Client \<Rightarrow> bool" where
  "verify_server_acc_steps c acc client =
     (case crypto_sign_ed25519_sk_to_curve25519 c (c_sec client) of
        None \<Rightarrow> False
      | Some curve_sec \<Rightarrow>
     (case crypto_scalarmult c curve_sec (c_server_eph_pub client) of
        None \<Rightarrow> False
      | Some client_lterm_shared \<Rightarrow>
     (case crypto_secretbox_open_easy c acc zero_nonce
             (crypto_hash_sha256 c
                (c_app client @ c_shared_secret client @ c_server_lterm_shared client
                 @ client_lterm_shared)) of
        None \<Rightarrow> False
      | Some server_sig \<Rightarrow>
        crypto_sign_verify_detached c server_sig
          (c_app client @ c_hello client @ c_shared_hash client) (c_server_pub client))))"

section \<open>A small instance of the library\<close>

text \<open>
  An instance of the parameter on which every operation can be computed. It has none of
  the security of the real primitives; it has their sizes and their algebra, which is all
  the theorems below assume. A public key is its secret key, the Diffie-Hellman secret is
  the bytewise sum and fails on the all-zero point, leaving 32 zero bytes in its output,
  an Ed25519 secret key is the public key twice.
\<close>

definition pad32 :: "bytes \<Rightarrow> bytes" where
  "pad32 xs = take 32 (xs @ replicate 32 0)"

definition zero32 :: bytes where
  "zero32 = replicate 32 0"

definition toy_hash :: "bytes \<Rightarrow> bytes" where
  "toy_hash m = map (\<lambda>b. b + sum_list m) (pad32 m)"

definition toy_auth :: "bytes \<Rightarrow> bytes \<Rightarrow> bytes" where
  "toy_auth m k = map2 (+) (pad32 k) (toy_hash m)"

definition toy_scalarmult :: "bytes \<Rightarrow> bytes \<Rightarrow> bytes option" where
  "toy_scalarmult n p =
     (if length n = 32 \<and> length p = 32 \<and> p \<noteq> zero32 then Some (map2 (+) n p) else None)"

definition toy_pk_to_curve :: "bytes \<Rightarrow> bytes option" where
  "toy_pk_to_curve P = (if length P = 32 \<and> P \<noteq> zero32 then Some P else None)"

definition toy_sk_to_curve :: "bytes \<Rightarrow> bytes option" where
  "toy_sk_to_curve S = (if length S = 64 then Some (take 32 S) else None)"

definition toy_sign :: "bytes \<Rightarrow> bytes \<Rightarrow> bytes" where
  "toy_sign m S = pad32 (drop 32 S) @ toy_hash m"

definition toy_sign_verify :: "bytes \<Rightarrow> bytes \<Rightarrow> bytes \<Rightarrow> bool" where
  "toy_sign_verify sig m P \<longleftrightarrow> sig = pad32 P @ toy_hash m"

definition toy_secretbox :: "bytes \<Rightarrow> bytes \<Rightarrow> bytes \<Rightarrow> bytes" where
  "toy_secretbox m n k = take 16 (toy_hash (k @ n @ m)) @ map (\<lambda>b. b + sum_list k) m"

definition toy_secretbox_open :: "bytes \<Rightarrow> bytes \<Rightarrow> bytes \<Rightarrow> bytes option" where
  "toy_secretbox_open ct n k =
     (let m = map (\<lambda>b. b - sum_list k) (drop 16 ct)
      in if 16 \<le> length ct \<and> take 16 ct = take 16 (toy_hash (k @ n @ m)) then Some m
         else None)"

definition toy :: sodium where
  "toy = \<lparr>crypto_auth = toy_auth,
          crypto_auth_verify = (\<lambda>t m k. t = toy_auth m k),
          crypto_scalarmult = toy_scalarmult,
          crypto_scalarmult_failed = (\<lambda>q n p. replicate 32 0),
          crypto_sign_ed25519_pk_to_curve25519 = toy_pk_to_curve,
          crypto_sign_ed25519_sk_to_curve25519 = toy_sk_to_curve,
          crypto_hash_sha256 = toy_hash,
          crypto_sign_detached = toy_sign,
          crypto_sign_verify_detached = toy_sign_verify,
          crypto_secretbox_easy = toy_secretbox,
          crypto_secretbox_open_easy = toy_secretbox_open,
          box_keypair = (\<lambda>p s. length s = 32 \<and> p = s \<and> p \<noteq> zero32),
          sign_keypair = (\<lambda>P S. length P = 32 \<and> S = P @ P \<and> P \<noteq> zero32)\<rparr>"


text \<open>Inputs of one handshake on that instance.\<close>

definition K0 :: bytes where "K0 = replicate 32 1"
definition A_p0 :: bytes where "A_p0 = replicate 32 2"
definition A_s0 :: bytes where "A_s0 = replicate 32 2 @ replicate 32 2"
definition a_p0 :: bytes where "a_p0 = replicate 32 3"
definition a_s0 :: bytes where "a_s0 = replicate 32 3"
definition B_p0 :: bytes where "B_p0 = replicate 32 4"
definition B_s0 :: bytes where "B_s0 = replicate 32 4 @ replicate 32 4"
definition b_p0 :: bytes where "b_p0 = replicate 32 5"
definition b_s0 :: bytes where "b_s0 = replicate 32 5"

lemmas inputs0 = K0_def A_p0_def A_s0_def a_p0_def a_s0_def B_p0_def B_s0_def b_p0_def b_s0_def

definition client0 :: SHS1_Client where
  "client0 = shs1_init_client (replicate 224 0) K0 A_p0 A_s0 a_p0 a_s0 B_p0"

definition server0 :: SHS1_Server where
  "server0 = shs1_init_server (replicate 224 0) K0 B_p0 B_s0 b_p0 b_s0"

definition buffers0 :: handshake_buffers where
  "buffers0 =
     \<lparr>b_client_challenge = replicate 64 0, b_server_challenge = replicate 64 0,
      b_client_auth = replicate 112 0, b_server_acc = replicate 80 0,
      b_client_outcome = replicate 112 0, b_server_outcome = replicate 112 0\<rparr>"

text \<open>
  States and messages of that handshake: the client and the server once each has stored
  the peer's ephemeral key, the client once it holds the all-zero point instead, a server
  of another application key, the client's hello and auth, an auth whose signature is 64
  zero bytes, the final box key, the client after its auth, and the server's acc.
\<close>

definition client_after_challenge :: SHS1_Client where
  "client_after_challenge = client0\<lparr>c_mem := replicate 192 0 @ b_p0\<rparr>"

definition client_zero_point :: SHS1_Client where
  "client_zero_point = client0\<lparr>c_mem := replicate 192 0 @ zero32\<rparr>"

definition server_after_challenge :: SHS1_Server where
  "server_after_challenge = server0\<lparr>s_mem := replicate 128 0 @ a_p0 @ replicate 64 0\<rparr>"


definition hello0 :: bytes where
  "hello0 = toy_sign (K0 @ B_p0 @ toy_hash (replicate 32 8)) A_s0 @ A_p0"

definition auth0 :: bytes where
  "auth0 = toy_secretbox hello0 zero_nonce (toy_hash (K0 @ replicate 32 8 @ replicate 32 7))"

definition auth_bad_sig :: bytes where
  "auth_bad_sig = toy_secretbox (replicate 64 0 @ A_p0) zero_nonce
                    (toy_hash (K0 @ replicate 32 8 @ replicate 32 7))"

definition box_sec0 :: bytes where
  "box_sec0 = toy_hash (K0 @ replicate 32 8 @ replicate 32 7 @ replicate 32 7)"

definition client_after_auth :: SHS1_Client where
  "client_after_auth = client0\<lparr>c_mem := replicate 32 8 @ replicate 32 7 @ hello0
                @ toy_hash (replicate 32 8) @ b_p0\<rparr>"

definition acc0 :: bytes where
  "acc0 = toy_secretbox (toy_sign (K0 @ hello0 @ toy_hash (replicate 32 8)) B_s0)
            zero_nonce box_sec0"

section \<open>Reading and writing buffers\<close>

lemma slice_adjacent: "slice off (n1 + n2) m = slice off n1 m @ slice (off + n1) n2 m"
  by (simp add: slice_def take_add add.commute)

lemma store_skip:
  "length a \<le> off \<Longrightarrow> store off x (a @ rest) = a @ store (off - length a) x rest"
  by (simp add: store_def)

lemma store_inside:
  "0 < off \<Longrightarrow> off < length a \<Longrightarrow>
   store off x (a @ rest) = take off a @ store 0 x (drop off a @ rest)"
  by (simp add: store_def add.commute)

lemma store_0: "store 0 x m = x @ drop (length x) m"
  by (simp add: store_def)

lemma slice_skip:
  "length a \<le> off \<Longrightarrow> slice off n (a @ rest) = slice (off - length a) n rest"
  by (simp add: slice_def)

lemma slice_inside:
  "0 < off \<Longrightarrow> off < length a \<Longrightarrow> slice off n (a @ rest) = slice 0 n (drop off a @ rest)"
  by (simp add: slice_def)

lemma slice_0: "slice 0 n m = take n m"
  by (simp add: slice_def)

lemmas mem_simps = store_skip store_inside store_0 slice_skip slice_inside slice_0

lemma sizes_auth: "sodium_sizes c \<Longrightarrow> length (crypto_auth c m k) = 32"
  by (simp add: sodium_sizes_def sizes)

lemma sizes_hash: "sodium_sizes c \<Longrightarrow> length (crypto_hash_sha256 c m) = 32"
  by (simp add: sodium_sizes_def sizes)

lemma sizes_sign: "sodium_sizes c \<Longrightarrow> length (crypto_sign_detached c m sk) = 64"
  by (simp add: sodium_sizes_def sizes)

lemma sizes_box: "sodium_sizes c \<Longrightarrow> length (crypto_secretbox_easy c m n k) = length m + 16"
  by (simp add: sodium_sizes_def sizes)

lemma sizes_scalarmult: "sodium_sizes c \<Longrightarrow> crypto_scalarmult c n p = Some q \<Longrightarrow> length q = 32"
  by (simp add: sodium_sizes_def sizes)

lemma sizes_pk: 
  "sodium_sizes c \<Longrightarrow> crypto_sign_ed25519_pk_to_curve25519 c pk = Some q \<Longrightarrow> length q = 32"
  by (simp add: sodium_sizes_def sizes)

lemma sizes_sk: 
  "sodium_sizes c \<Longrightarrow> crypto_sign_ed25519_sk_to_curve25519 c sk = Some q \<Longrightarrow> length q = 32"
  by (simp add: sodium_sizes_def sizes)

lemma sizes_open:
  "sodium_sizes c \<Longrightarrow> crypto_secretbox_open_easy c ct n k = Some m \<Longrightarrow> length m + 16 = length ct"
  by (simp add: sodium_sizes_def sizes)

lemma create_client_challenge_eq:
  assumes "sodium_sizes c" "client_ok client" "length challenge = 64"
  shows "shs1_create_client_challenge c challenge client =
           crypto_auth c (c_eph_pub client) (c_app client) @ c_eph_pub client"
  using assms
  by (simp add: shs1_create_client_challenge_def store_def client_ok_def sizes sizes_auth)

lemma create_server_challenge_eq:
  assumes "sodium_sizes c" "server_ok server" "length challenge = 64"
  shows "shs1_create_server_challenge c challenge server =
           crypto_auth c (s_eph_pub server) (s_app server) @ s_eph_pub server"
  using assms
  by (simp add: shs1_create_server_challenge_def store_def server_ok_def sizes sizes_auth)

section \<open>The small instance meets the assumptions\<close>

lemma length_pad32 [simp]: "length (pad32 xs) = 32"
  by (simp add: pad32_def)

lemma pad32_id [simp]: "length xs = 32 \<Longrightarrow> pad32 xs = xs"
  by (simp add: pad32_def)

lemma length_toy_hash [simp]: "length (toy_hash m) = 32"
  by (simp add: toy_hash_def)

lemma toy_sizes: "sodium_sizes toy"
  by (auto simp: sodium_sizes_def toy_def sizes toy_auth_def toy_scalarmult_def
      toy_pk_to_curve_def toy_sk_to_curve_def toy_sign_def toy_secretbox_def
      toy_secretbox_open_def Let_def split: if_splits)

lemma toy_roundtrips: "sodium_roundtrips toy"
  by (simp add: sodium_roundtrips_def toy_def toy_secretbox_def toy_secretbox_open_def
      Let_def comp_def)

lemma map2_add_commute: "map2 (+) xs ys = map2 (+) ys (xs :: bytes)"
proof (induction xs arbitrary: ys)
  case Nil
  then show ?case by simp
next
  case (Cons x xs)
  then show ?case by (cases ys) (simp_all add: add.commute)
qed

lemma toy_keys: "sodium_keys toy"
  by (auto simp: sodium_keys_def toy_def sizes toy_scalarmult_def toy_pk_to_curve_def
      toy_sk_to_curve_def toy_sign_def toy_sign_verify_def map2_add_commute)

lemma client0_ok: "client_ok client0"
  by (simp add: client_ok_def client0_def shs1_init_client_def inputs0 sizes c_offsets)

lemma server0_ok: "server_ok server0"
  by (simp add: server_ok_def server0_def shs1_init_server_def inputs0 sizes s_offsets)

section \<open>The challenges\<close>

text \<open>
  C7. \<open>shs1_create_client_challenge\<close> writes the 64 bytes \<open>HMAC(K, a_p) || a_p\<close> and
  \<open>shs1_create_server_challenge\<close> the 64 bytes \<open>HMAC(K, b_p) || b_p\<close>: the 32-byte tag of
  the role's own ephemeral public key under the application key, then that key.
\<close>

theorem challenge_is_tag_then_key:
  assumes "sodium_sizes c" and "client_ok client" and "server_ok server"
    and "length challenge = SHS1_CLIENT_CHALLENGE_BYTES"
  shows "shs1_create_client_challenge c challenge client =
           crypto_auth c (c_eph_pub client) (c_app client) @ c_eph_pub client
       \<and> shs1_create_server_challenge c challenge server =
           crypto_auth c (s_eph_pub server) (s_app server) @ s_eph_pub server
       \<and> length (shs1_create_client_challenge c challenge client) = 64
       \<and> length (shs1_create_server_challenge c challenge server) = 64
       \<and> length (crypto_auth c (c_eph_pub client) (c_app client)) = 32
       \<and> length (crypto_auth c (s_eph_pub server) (s_app server)) = 32"
proof -
  have len: "length challenge = 64"
    using assms(4) by (simp add: sizes)
  have "length (c_eph_pub client) = 32" "length (s_eph_pub server) = 32"
    using assms(2,3) by (simp_all add: client_ok_def server_ok_def sizes)
  then show ?thesis
    using assms(1-3) len
    by (simp add: create_client_challenge_eq create_server_challenge_eq sizes_auth)
qed

theorem challenge_is_tag_then_key_witness:
  "sodium_sizes toy \<and> client_ok client0 \<and> server_ok server0
   \<and> length (replicate 64 (0::byte)) = SHS1_CLIENT_CHALLENGE_BYTES
   \<and> shs1_create_client_challenge toy (replicate 64 0) client0 =
        crypto_auth toy (c_eph_pub client0) (c_app client0) @ c_eph_pub client0
   \<and> shs1_create_server_challenge toy (replicate 64 0) server0 =
        crypto_auth toy (s_eph_pub server0) (s_app server0) @ s_eph_pub server0"
  using challenge_is_tag_then_key [OF toy_sizes client0_ok server0_ok, of "replicate 64 0"]
  by (simp add: toy_sizes client0_ok server0_ok sizes)

text \<open>
  C9. When \<open>shs1_verify_server_challenge\<close> or \<open>shs1_verify_client_challenge\<close> returns
  false, the state is the state before the call: the peer's ephemeral key is stored only
  after the tag has verified.
\<close>

theorem failed_challenge_leaves_state:
  "(\<not> fst (shs1_verify_server_challenge c challenge client) \<longrightarrow>
      snd (shs1_verify_server_challenge c challenge client) = client)
   \<and> (\<not> fst (shs1_verify_client_challenge c challenge' server) \<longrightarrow>
      snd (shs1_verify_client_challenge c challenge' server) = server)"
  by (simp add: shs1_verify_server_challenge_def shs1_verify_client_challenge_def)

lemma toy_rejects_zero_challenge:
  "\<not> fst (shs1_verify_server_challenge toy (replicate 64 0) client0)"
  "\<not> fst (shs1_verify_client_challenge toy (replicate 64 0) server0)"
  by (simp_all add: shs1_verify_server_challenge_def shs1_verify_client_challenge_def toy_def
      client0_def server0_def shs1_init_client_def shs1_init_server_def inputs0 sizes
      slice_def toy_auth_def toy_hash_def pad32_def sum_list_replicate)

theorem failed_challenge_leaves_state_witness:
  "\<not> fst (shs1_verify_server_challenge toy (replicate 64 0) client0)
   \<and> snd (shs1_verify_server_challenge toy (replicate 64 0) client0) = client0
   \<and> \<not> fst (shs1_verify_client_challenge toy (replicate 64 0) server0)
   \<and> snd (shs1_verify_client_challenge toy (replicate 64 0) server0) = server0"
  using failed_challenge_leaves_state [of toy "replicate 64 0" client0 "replicate 64 0" server0]
    toy_rejects_zero_challenge
  by simp

section \<open>Adjacent fields\<close>

text \<open>
  C10. Copying 64 bytes from \<open>shared_secret\<close>, or 128 bytes from \<open>hello\<close> (client) or
  \<open>client_hello\<close> (server), gives the same buffer as copying each of the two adjacent
  fields by itself: \<open>K || shared_secret || server_lterm_shared\<close> and
  \<open>K || hello || shared_hash\<close>.
\<close>

theorem one_memcpy_over_adjacent_fields:
  "c_tmp_memcpy app m = c_tmp_fieldwise app m
   \<and> c_expected_memcpy app m = c_expected_fieldwise app m
   \<and> s_to_sign_memcpy app m = s_to_sign_fieldwise app m
   \<and> c_tmp_memcpy (c_app client) (c_mem client) =
       take crypto_auth_KEYBYTES (c_app client) @ c_shared_secret client
       @ c_server_lterm_shared client
   \<and> c_expected_memcpy (c_app client) (c_mem client) =
       take crypto_auth_KEYBYTES (c_app client) @ c_hello client @ c_shared_hash client
   \<and> s_to_sign_memcpy (s_app server) (s_mem server) =
       take crypto_auth_KEYBYTES (s_app server) @ s_client_hello server @ s_shared_hash server"
  by (simp add: c_tmp_memcpy_def c_tmp_fieldwise_def c_expected_memcpy_def
      c_expected_fieldwise_def s_to_sign_memcpy_def s_to_sign_fieldwise_def
      c_fields s_fields c_offsets s_offsets mult_2 slice_adjacent)

section \<open>The client state as its five fields\<close>

lemma split5:
  assumes "length m = a + b + c + d + e"
  obtains f1 f2 f3 f4 f5 where "m = f1 @ f2 @ f3 @ f4 @ f5"
    "length f1 = a" "length f2 = b" "length f3 = c" "length f4 = d" "length f5 = e"
proof
  show "m = take a m @ take b (drop a m) @ take c (drop (a + b) m)
          @ take d (drop (a + b + c) m) @ drop (a + b + c + d) m"
    by (metis append_take_drop_id drop_drop add.commute)
qed (use assms in auto)

lemma client_mem_fields:
  assumes "client_ok client"
  shows "c_mem client = c_shared_secret client @ c_server_lterm_shared client @ c_hello client
           @ c_shared_hash client @ c_server_eph_pub client"
    and "length (c_shared_secret client) = 32" and "length (c_server_lterm_shared client) = 32"
    and "length (c_hello client) = 96" and "length (c_shared_hash client) = 32"
    and "length (c_server_eph_pub client) = 32"
proof -
  from assms have "length (c_mem client) = 32 + 32 + 96 + 32 + 32"
    by (simp add: client_ok_def c_offsets sizes)
  then obtain f1 f2 f3 f4 f5 where m: "c_mem client = f1 @ f2 @ f3 @ f4 @ f5"
    and l: "length f1 = 32" "length f2 = 32" "length f3 = 96" "length f4 = 32" "length f5 = 32"
    by (rule split5)
  have f: "c_shared_secret client = f1" "c_server_lterm_shared client = f2" "c_hello client = f3"
    "c_shared_hash client = f4" "c_server_eph_pub client = f5"
    by (simp_all add: c_fields c_offsets sizes m l mem_simps)
  show "c_mem client = c_shared_secret client @ c_server_lterm_shared client @ c_hello client
           @ c_shared_hash client @ c_server_eph_pub client"
    by (simp only: f m)
  show "length (c_shared_secret client) = 32" "length (c_server_lterm_shared client) = 32"
    "length (c_hello client) = 96" "length (c_shared_hash client) = 32"
    "length (c_server_eph_pub client) = 32"
    by (simp_all only: f l)
qed

lemma client_okD:
  assumes "client_ok client"
  shows "length (c_app client) = 32" "length (c_pub client) = 32" "length (c_sec client) = 64"
    "length (c_eph_pub client) = 32" "length (c_eph_sec client) = 32"
    "length (c_server_pub client) = 32" "length (c_mem client) = 224"
  using assms by (simp_all add: client_ok_def sizes c_offsets)

lemma create_client_auth_success:
  assumes sz: "sodium_sizes c" and ok: "client_ok client" and au: "length auth = 112"
    and q1: "crypto_scalarmult c (c_eph_sec client) (c_server_eph_pub client) = Some ss"
    and cv: "crypto_sign_ed25519_pk_to_curve25519 c (c_server_pub client) = Some cB"
    and q2: "crypto_scalarmult c (c_eph_sec client) cB = Some sls"
  shows "shs1_create_client_auth c auth client =
     (0,
      crypto_secretbox_easy c
        (crypto_sign_detached c
           (c_app client @ c_server_pub client @ crypto_hash_sha256 c ss) (c_sec client)
         @ c_pub client)
        zero_nonce (crypto_hash_sha256 c (c_app client @ ss @ sls)),
      client\<lparr>c_mem := ss @ sls
         @ (crypto_sign_detached c
              (c_app client @ c_server_pub client @ crypto_hash_sha256 c ss) (c_sec client)
            @ c_pub client)
         @ crypto_hash_sha256 c ss @ c_server_eph_pub client\<rparr>)"
proof -
  note f = client_mem_fields [OF ok]
  have lss: "length ss = 32" "length sls = 32"
    using sz q1 q2 by (auto dest: sizes_scalarmult)
  have sep: "slice c_off_server_eph_pub crypto_box_PUBLICKEYBYTES (c_mem client)
               = c_server_eph_pub client"
    by (simp add: c_fields)
  show ?thesis
    unfolding shs1_create_client_auth_def sep
    using q1 cv q2 au
    by (simp add: client_okD [OF ok] f(1) f(2-) lss sizes_hash [OF sz] sizes_sign [OF sz]
        sizes_box [OF sz] c_tmp_memcpy_def c_offsets sizes mem_simps Let_def)
qed

section \<open>The client's auth\<close>

text \<open>
  C4. When its three fallible steps succeed, \<open>shs1_create_client_auth\<close> returns 0 and
  writes exactly the 112 bytes \<open>secretbox_seal(hello, 24 zero bytes, box_key)\<close>, where
  \<open>hello\<close> is the 96 bytes \<open>sign_detached(A_s, K || B_p || SHA256(shared_secret)) || A_p\<close>,
  \<open>box_key = SHA256(K || shared_secret || server_lterm_shared)\<close>,
  \<open>shared_secret = scalarmult(a_s, b_p)\<close> and
  \<open>server_lterm_shared = scalarmult(a_s, curve25519(B_p))\<close>.
\<close>

theorem client_auth_message:
  assumes "sodium_sizes c" and "client_ok client" and "length auth = SHS1_CLIENT_AUTH_BYTES"
    and "crypto_scalarmult c (c_eph_sec client) (c_server_eph_pub client) = Some shared_secret"
    and "crypto_sign_ed25519_pk_to_curve25519 c (c_server_pub client) = Some curve_server_pub"
    and "crypto_scalarmult c (c_eph_sec client) curve_server_pub = Some server_lterm_shared"
  shows "fst (shs1_create_client_auth c auth client) = 0
       \<and> fst (snd (shs1_create_client_auth c auth client)) =
           crypto_secretbox_easy c
             (crypto_sign_detached c
                (c_app client @ c_server_pub client @ crypto_hash_sha256 c shared_secret)
                (c_sec client)
              @ c_pub client)
             (replicate 24 0)
             (crypto_hash_sha256 c (c_app client @ shared_secret @ server_lterm_shared))
       \<and> length (fst (snd (shs1_create_client_auth c auth client))) = 112
       \<and> length (crypto_sign_detached c
                (c_app client @ c_server_pub client @ crypto_hash_sha256 c shared_secret)
                (c_sec client)
              @ c_pub client) = 96"
proof -
  have au: "length auth = 112"
    using assms(3) by (simp add: sizes)
  show ?thesis
    using assms(1,2)
    by (simp add: create_client_auth_success [OF assms(1,2) au assms(4-6)] zero_nonce_def
        sizes sizes_box sizes_sign client_okD)
qed

lemma client_after_challenge_ok: "client_ok client_after_challenge"
  by (simp add: client_ok_def client_after_challenge_def client0_def shs1_init_client_def inputs0 sizes c_offsets)

lemma client_after_challenge_steps:
  "crypto_scalarmult toy (c_eph_sec client_after_challenge) (c_server_eph_pub client_after_challenge) = Some (replicate 32 8)"
  "crypto_sign_ed25519_pk_to_curve25519 toy (c_server_pub client_after_challenge) = Some (replicate 32 4)"
  "crypto_scalarmult toy (c_eph_sec client_after_challenge) (replicate 32 4) = Some (replicate 32 7)"
  by (simp_all add: toy_def client_after_challenge_def client0_def shs1_init_client_def inputs0 c_fields
      c_offsets sizes slice_def toy_scalarmult_def toy_pk_to_curve_def zero32_def)

theorem client_auth_message_witness:
  "sodium_sizes toy \<and> client_ok client_after_challenge
   \<and> length (replicate 112 (0::byte)) = SHS1_CLIENT_AUTH_BYTES
   \<and> crypto_scalarmult toy (c_eph_sec client_after_challenge) (c_server_eph_pub client_after_challenge)
       = Some (replicate 32 8)
   \<and> crypto_sign_ed25519_pk_to_curve25519 toy (c_server_pub client_after_challenge) = Some (replicate 32 4)
   \<and> crypto_scalarmult toy (c_eph_sec client_after_challenge) (replicate 32 4) = Some (replicate 32 7)
   \<and> fst (shs1_create_client_auth toy (replicate 112 0) client_after_challenge) = 0
   \<and> fst (snd (shs1_create_client_auth toy (replicate 112 0) client_after_challenge)) =
           crypto_secretbox_easy toy
             (crypto_sign_detached toy
                (c_app client_after_challenge @ c_server_pub client_after_challenge @ crypto_hash_sha256 toy (replicate 32 8))
                (c_sec client_after_challenge)
              @ c_pub client_after_challenge)
             (replicate 24 0)
             (crypto_hash_sha256 toy (c_app client_after_challenge @ replicate 32 8 @ replicate 32 7))"
  using client_auth_message [OF toy_sizes client_after_challenge_ok _
      client_after_challenge_steps, of "replicate 112 0"]
  by (simp add: toy_sizes client_after_challenge_ok client_after_challenge_steps sizes)

text \<open>
  C2. The claim: when \<open>scalarmult(a_s, b_p)\<close> fails, \<open>shs1_create_client_auth\<close> returns a
  value that differs from the one it returns on success. What the code does: it returns
  \<open>false\<close>, which is 0 in a function of return type \<open>int\<close>, the value of its final
  \<open>return 0;\<close>, and nothing is written to \<open>auth\<close>.
\<close>

theorem short_term_dh_failure_returns_zero:
  assumes "crypto_scalarmult c (take crypto_box_SECRETKEYBYTES (c_eph_sec client))
             (c_server_eph_pub client) = None"
  shows "fst (shs1_create_client_auth c auth client) = 0
       \<and> fst (snd (shs1_create_client_auth c auth client)) = auth"
  using assms by (simp add: shs1_create_client_auth_def c_fields false_as_int_def)

theorem short_term_dh_failure_returns_zero_witness:
  "crypto_scalarmult toy (take crypto_box_SECRETKEYBYTES (c_eph_sec client_zero_point))
             (c_server_eph_pub client_zero_point) = None
   \<and> fst (shs1_create_client_auth toy (replicate 112 0) client_zero_point) = 0
   \<and> fst (snd (shs1_create_client_auth toy (replicate 112 0) client_zero_point)) = replicate 112 0"
proof -
  have h: "crypto_scalarmult toy (take crypto_box_SECRETKEYBYTES (c_eph_sec client_zero_point))
             (c_server_eph_pub client_zero_point) = None"
    by (simp add: toy_def client_zero_point_def client0_def shs1_init_client_def inputs0 c_fields
      c_offsets sizes slice_def toy_scalarmult_def zero32_def)
  show ?thesis
    using short_term_dh_failure_returns_zero [OF h, of "replicate 112 0"] h by simp
qed

section \<open>The operations on named fields\<close>

lemma verify_server_acc_eq:
  assumes sz: "sodium_sizes c" and ok: "client_ok client" and la: "length acc = 80"
  shows "shs1_verify_server_acc c acc client =
     (case crypto_sign_ed25519_sk_to_curve25519 c (c_sec client) of
        None \<Rightarrow> (False, client)
      | Some curve_sec \<Rightarrow>
     (case crypto_scalarmult c curve_sec (c_server_eph_pub client) of
        None \<Rightarrow> (False, client)
      | Some cls \<Rightarrow>
     (case crypto_secretbox_open_easy c acc zero_nonce
             (crypto_hash_sha256 c
                (c_app client @ c_shared_secret client @ c_server_lterm_shared client @ cls)) of
        None \<Rightarrow>
          (False, client\<lparr>c_mem := crypto_hash_sha256 c
                (c_app client @ c_shared_secret client @ c_server_lterm_shared client @ cls)
              @ c_server_lterm_shared client @ c_hello client @ c_shared_hash client
              @ c_server_eph_pub client\<rparr>)
      | Some sig \<Rightarrow>
          (crypto_sign_verify_detached c sig
             (c_app client @ c_hello client @ c_shared_hash client) (c_server_pub client),
           client\<lparr>c_mem := crypto_hash_sha256 c
                (c_app client @ c_shared_secret client @ c_server_lterm_shared client @ cls)
              @ c_server_lterm_shared client @ sig @ drop 64 (c_hello client)
              @ c_shared_hash client @ c_server_eph_pub client\<rparr>))))"
proof -
  note f = client_mem_fields [OF ok]
  have sep: "slice c_off_server_eph_pub crypto_box_PUBLICKEYBYTES (c_mem client)
               = c_server_eph_pub client"
    by (simp add: c_fields)
  have sig: "length s = 64"
    if "crypto_secretbox_open_easy c acc n k = Some s" for s n k
    using sizes_open [OF sz that] la by simp
  show ?thesis
    unfolding shs1_verify_server_acc_def sep
    by (simp add: client_okD [OF ok] f(1) f(2-) sizes_hash [OF sz] la sig
        c_tmp_memcpy_def c_expected_memcpy_def c_offsets sizes mem_simps Let_def
        sizes_scalarmult [OF sz]
        split: option.split)
qed

lemma server_mem_fields:
  assumes "server_ok server"
  shows "s_mem server = s_client_hello server @ s_shared_hash server @ s_client_eph_pub server
           @ s_client_pub server @ s_box_sec server"
    and "length (s_client_hello server) = 96" and "length (s_shared_hash server) = 32"
    and "length (s_client_eph_pub server) = 32" and "length (s_client_pub server) = 32"
    and "length (s_box_sec server) = 32"
proof -
  from assms have "length (s_mem server) = 96 + 32 + 32 + 32 + 32"
    by (simp add: server_ok_def s_offsets sizes)
  then obtain f1 f2 f3 f4 f5 where m: "s_mem server = f1 @ f2 @ f3 @ f4 @ f5"
    and l: "length f1 = 96" "length f2 = 32" "length f3 = 32" "length f4 = 32" "length f5 = 32"
    by (rule split5)
  have f: "s_client_hello server = f1" "s_shared_hash server = f2" "s_client_eph_pub server = f3"
    "s_client_pub server = f4" "s_box_sec server = f5"
    by (simp_all add: s_fields s_offsets sizes m l mem_simps)
  show "s_mem server = s_client_hello server @ s_shared_hash server @ s_client_eph_pub server
           @ s_client_pub server @ s_box_sec server"
    by (simp only: f m)
  show "length (s_client_hello server) = 96" "length (s_shared_hash server) = 32"
    "length (s_client_eph_pub server) = 32" "length (s_client_pub server) = 32"
    "length (s_box_sec server) = 32"
    by (simp_all only: f l)
qed

lemma server_okD:
  assumes "server_ok server"
  shows "length (s_app server) = 32" "length (s_pub server) = 32" "length (s_sec server) = 64"
    "length (s_eph_pub server) = 32" "length (s_eph_sec server) = 32"
    "length (s_mem server) = 224"
  using assms by (simp_all add: server_ok_def sizes s_offsets)

lemma verify_client_auth_eq:
  assumes sz: "sodium_sizes c" and ok: "server_ok server" and la: "length auth = 112"
  shows "shs1_verify_client_auth c auth server =
     (case crypto_scalarmult c (s_eph_sec server) (s_client_eph_pub server) of
        None \<Rightarrow> (False, server)
      | Some ss \<Rightarrow>
     (case crypto_sign_ed25519_sk_to_curve25519 c (s_sec server) of
        None \<Rightarrow> (False, server)
      | Some curve_sec \<Rightarrow>
     (case crypto_scalarmult c curve_sec (s_client_eph_pub server) of
        None \<Rightarrow>
          (False, server\<lparr>s_mem := s_client_hello server @ curve_sec @ s_client_eph_pub server
              @ s_client_pub server @ s_box_sec server\<rparr>)
      | Some els \<Rightarrow>
     (case crypto_secretbox_open_easy c auth zero_nonce
             (crypto_hash_sha256 c (s_app server @ ss @ els)) of
        None \<Rightarrow>
          (False, server\<lparr>s_mem := s_client_hello server
              @ crypto_hash_sha256 c (s_app server @ ss @ els) @ s_client_eph_pub server
              @ s_client_pub server @ s_box_sec server\<rparr>)
      | Some hello \<Rightarrow>
     (case crypto_sign_ed25519_pk_to_curve25519 c (drop 64 hello) of
        None \<Rightarrow>
          (False, server\<lparr>s_mem := hello
              @ crypto_hash_sha256 c (s_app server @ ss @ els) @ s_client_eph_pub server
              @ drop 64 hello @ s_box_sec server\<rparr>)
      | Some curve_client_pub \<Rightarrow>
     (case crypto_scalarmult c (s_eph_sec server) curve_client_pub of
        None \<Rightarrow>
          (False, server\<lparr>s_mem := hello @ curve_client_pub @ s_client_eph_pub server
              @ drop 64 hello @ s_box_sec server\<rparr>)
      | Some lec \<Rightarrow>
          if crypto_sign_verify_detached c (take 64 hello)
               (s_app server @ s_pub server @ crypto_hash_sha256 c ss) (drop 64 hello)
          then (True, server\<lparr>s_mem := hello @ crypto_hash_sha256 c ss
                  @ s_client_eph_pub server @ drop 64 hello
                  @ crypto_hash_sha256 c (s_app server @ ss @ els @ lec)\<rparr>)
          else (False, server\<lparr>s_mem := hello @ crypto_hash_sha256 c ss
                  @ s_client_eph_pub server @ drop 64 hello @ s_box_sec server\<rparr>)))))))"
proof -
  note f = server_mem_fields [OF ok]
  have cep: "slice s_off_client_eph_pub crypto_box_PUBLICKEYBYTES (s_mem server)
               = s_client_eph_pub server"
    by (simp add: s_fields)
  have hello: "length h = 96"
    if "crypto_secretbox_open_easy c auth n k = Some h" for h n k
    using sizes_open [OF sz that] la by simp
  show ?thesis
    unfolding shs1_verify_client_auth_def cep
    by (simp add: server_okD [OF ok] f(1) f(2-) sizes_hash [OF sz] la hello
        s_offsets sizes mem_simps Let_def sizes_scalarmult [OF sz] sizes_sk [OF sz]
        sizes_pk [OF sz]
        split: option.split)
qed

lemma create_server_acc_eq:
  assumes sz: "sodium_sizes c" and ok: "server_ok server" and la: "length acc = 80"
  shows "shs1_create_server_acc c acc server =
     (crypto_secretbox_easy c
        (crypto_sign_detached c
           (s_app server @ s_client_hello server @ s_shared_hash server) (s_sec server))
        zero_nonce (s_box_sec server),
      server\<lparr>s_mem :=
        crypto_sign_detached c
           (s_app server @ s_client_hello server @ s_shared_hash server) (s_sec server)
        @ drop 64 (s_client_hello server) @ s_shared_hash server @ s_client_eph_pub server
        @ s_client_pub server @ s_box_sec server\<rparr>)"
proof -
  note f = server_mem_fields [OF ok]
  show ?thesis
    unfolding shs1_create_server_acc_def
    by (simp add: server_okD [OF ok] f(1) f(2-) sizes_sign [OF sz] sizes_box [OF sz] la
        s_to_sign_memcpy_def s_offsets sizes mem_simps Let_def)
qed

lemma verify_server_challenge_eq:
  assumes ok: "client_ok client" and lt: "length tag = 32" and lp: "length pk = 32"
  shows "shs1_verify_server_challenge c (tag @ pk) client =
     (if crypto_auth_verify c tag pk (c_app client)
      then (True, client\<lparr>c_mem := c_shared_secret client @ c_server_lterm_shared client
              @ c_hello client @ c_shared_hash client @ pk\<rparr>)
      else (False, client))"
proof -
  note f = client_mem_fields [OF ok]
  show ?thesis
    unfolding shs1_verify_server_challenge_def
    by (simp add: client_okD [OF ok] f(1) f(2-) lt lp c_offsets sizes mem_simps)
qed

lemma verify_client_challenge_eq:
  assumes ok: "server_ok server" and lt: "length tag = 32" and lp: "length pk = 32"
  shows "shs1_verify_client_challenge c (tag @ pk) server =
     (if crypto_auth_verify c tag pk (s_app server)
      then (True, server\<lparr>s_mem := s_client_hello server @ s_shared_hash server @ pk
              @ s_client_pub server @ s_box_sec server\<rparr>)
      else (False, server))"
proof -
  note f = server_mem_fields [OF ok]
  show ?thesis
    unfolding shs1_verify_client_challenge_def
    by (simp add: server_okD [OF ok] f(1) f(2-) lt lp s_offsets sizes mem_simps)
qed

section \<open>The outcome buffer\<close>

lemma slice_store_same:
  "off \<le> length m \<Longrightarrow> n \<le> length x \<Longrightarrow> slice off n (store off x m) = take n x"
  by (simp add: slice_def store_def)

lemma slice_store_before:
  assumes "a + n \<le> b" and "b \<le> length m"
  shows "slice a n (store b x m) = slice a n m"
proof -
  have "take n (drop a (take b m @ x @ drop (b + length x) m)) = take n (drop a (take b m))"
    using assms by simp
  also have "\<dots> = take n (take (b - a) (drop a m))"
    by (simp only: drop_take)
  also have "\<dots> = take n (drop a m)"
    using assms by (simp add: min_def)
  finally show ?thesis
    by (simp add: slice_def store_def)
qed

lemma length_store_ge: "off \<le> length m \<Longrightarrow> length m \<le> length (store off x m)"
  by (simp add: store_def)

lemma outcome_writes:
  assumes L: "outcome_layout_ok L outcome"
    and l: "length v1 = 32" "length t1 = 32" "length v2 = 32" "length t2 = 32"
  shows "encryption_key L
           (store (off_decryption_nonce L) t2 (store (off_decryption_key L) v2
              (store (off_encryption_nonce L) t1 (store (off_encryption_key L) v1 outcome))))
         = v1"
    and "encryption_nonce L
           (store (off_decryption_nonce L) t2 (store (off_decryption_key L) v2
              (store (off_encryption_nonce L) t1 (store (off_encryption_key L) v1 outcome))))
         = take 24 t1"
    and "decryption_key L
           (store (off_decryption_nonce L) t2 (store (off_decryption_key L) v2
              (store (off_encryption_nonce L) t1 (store (off_encryption_key L) v1 outcome))))
         = v2"
    and "decryption_nonce L
           (store (off_decryption_nonce L) t2 (store (off_decryption_key L) v2
              (store (off_encryption_nonce L) t1 (store (off_encryption_key L) v1 outcome))))
         = take 24 t2"
proof -
  let ?ek = "off_encryption_key L" and ?en = "off_encryption_nonce L"
  let ?dk = "off_decryption_key L" and ?dn = "off_decryption_nonce L"
  let ?o1 = "store ?ek v1 outcome"
  let ?o2 = "store ?en t1 ?o1"
  let ?o3 = "store ?dk v2 ?o2"
  from L have ord: "?ek + 32 \<le> ?en" "?en + 24 \<le> ?dk" "?dk + 32 \<le> ?dn"
    "?dn + 24 \<le> length outcome"
    by (simp_all add: outcome_layout_ok_def sizes)
  have len1: "length outcome \<le> length ?o1"
    using ord by (intro length_store_ge) simp
  have len2: "length outcome \<le> length ?o2"
    using ord len1 by (intro order_trans [OF len1 length_store_ge]) simp
  have len3: "length outcome \<le> length ?o3"
    using ord len2 by (intro order_trans [OF len2 length_store_ge]) simp
  have in0: "?ek \<le> length outcome" "?en \<le> length outcome" "?dk \<le> length outcome"
    "?dn \<le> length outcome"
    using ord by simp_all
  have in1: "?en \<le> length ?o1" using in0 len1 by simp
  have in2: "?dk \<le> length ?o2" using in0 len2 by simp
  have in3: "?dn \<le> length ?o3" using in0 len3 by simp
  show "encryption_key L (store ?dn t2 ?o3) = v1"
    using ord in0 in1 in2 in3 l
    by (simp add: encryption_key_def sizes slice_store_before slice_store_same)
  show "encryption_nonce L (store ?dn t2 ?o3) = take 24 t1"
    using ord in0 in1 in2 in3 l
    by (simp add: encryption_nonce_def sizes slice_store_before slice_store_same)
  show "decryption_key L (store ?dn t2 ?o3) = v2"
    using ord in0 in1 in2 in3 l
    by (simp add: decryption_key_def sizes slice_store_before slice_store_same)
  show "decryption_nonce L (store ?dn t2 ?o3) = take 24 t2"
    using ord in0 in1 in2 in3 l
    by (simp add: decryption_nonce_def sizes slice_store_before slice_store_same)
qed

lemma client_outcome_eq:
  assumes sz: "sodium_sizes c" and ok: "client_ok client"
  shows "fst (shs1_client_outcome c L outcome client) =
     store (off_decryption_nonce L) (crypto_auth c (c_eph_pub client) (c_app client))
       (store (off_decryption_key L)
          (crypto_hash_sha256 c
             (crypto_hash_sha256 c (c_shared_secret client) @ c_pub client))
          (store (off_encryption_nonce L)
             (crypto_auth c (c_server_eph_pub client) (c_app client))
             (store (off_encryption_key L)
                (crypto_hash_sha256 c
                   (crypto_hash_sha256 c (c_shared_secret client) @ c_server_pub client))
                outcome)))"
proof -
  note f = client_mem_fields [OF ok]
  show ?thesis
    unfolding shs1_client_outcome_def
    by (simp add: client_okD [OF ok] f(1) f(2-) sizes_hash [OF sz]
        c_offsets sizes mem_simps Let_def)
qed

lemma server_outcome_eq:
  assumes sz: "sodium_sizes c" and ok: "server_ok server"
  shows "fst (shs1_server_outcome c L outcome server) =
     store (off_decryption_nonce L) (crypto_auth c (s_eph_pub server) (s_app server))
       (store (off_decryption_key L)
          (crypto_hash_sha256 c
             (crypto_hash_sha256 c (s_box_sec server) @ s_pub server))
          (store (off_encryption_nonce L)
             (crypto_auth c (s_client_eph_pub server) (s_app server))
             (store (off_encryption_key L)
                (crypto_hash_sha256 c
                   (crypto_hash_sha256 c (s_box_sec server) @ s_client_pub server))
                outcome)))"
proof -
  note f = server_mem_fields [OF ok]
  show ?thesis
    unfolding shs1_server_outcome_def
    by (simp add: server_okD [OF ok] f(1) f(2-) sizes_hash [OF sz]
        s_offsets sizes mem_simps Let_def)
qed

lemma client_outcome_fields:
  assumes sz: "sodium_sizes c" and ok: "client_ok client" and L: "outcome_layout_ok L outcome"
  shows "encryption_key L (fst (shs1_client_outcome c L outcome client)) =
           crypto_hash_sha256 c
             (crypto_hash_sha256 c (c_shared_secret client) @ c_server_pub client)"
    and "encryption_nonce L (fst (shs1_client_outcome c L outcome client)) =
           take 24 (crypto_auth c (c_server_eph_pub client) (c_app client))"
    and "decryption_key L (fst (shs1_client_outcome c L outcome client)) =
           crypto_hash_sha256 c (crypto_hash_sha256 c (c_shared_secret client) @ c_pub client)"
    and "decryption_nonce L (fst (shs1_client_outcome c L outcome client)) =
           take 24 (crypto_auth c (c_eph_pub client) (c_app client))"
  unfolding client_outcome_eq [OF sz ok]
  by (rule outcome_writes [OF L]; simp add: sizes_hash [OF sz] sizes_auth [OF sz])+

lemma server_outcome_fields:
  assumes sz: "sodium_sizes c" and ok: "server_ok server" and L: "outcome_layout_ok L outcome"
  shows "encryption_key L (fst (shs1_server_outcome c L outcome server)) =
           crypto_hash_sha256 c
             (crypto_hash_sha256 c (s_box_sec server) @ s_client_pub server)"
    and "encryption_nonce L (fst (shs1_server_outcome c L outcome server)) =
           take 24 (crypto_auth c (s_client_eph_pub server) (s_app server))"
    and "decryption_key L (fst (shs1_server_outcome c L outcome server)) =
           crypto_hash_sha256 c (crypto_hash_sha256 c (s_box_sec server) @ s_pub server)"
    and "decryption_nonce L (fst (shs1_server_outcome c L outcome server)) =
           take 24 (crypto_auth c (s_eph_pub server) (s_app server))"
  unfolding server_outcome_eq [OF sz ok]
  by (rule outcome_writes [OF L]; simp add: sizes_hash [OF sz] sizes_auth [OF sz])+

section \<open>A whole handshake\<close>

lemma client_mem_upd:
  assumes "client_ok client"
    and "length f1 = 32" "length f2 = 32" "length f3 = 96" "length f4 = 32" "length f5 = 32"
  shows "client_ok (client\<lparr>c_mem := f1 @ f2 @ f3 @ f4 @ f5\<rparr>)"
    and "c_shared_secret (client\<lparr>c_mem := f1 @ f2 @ f3 @ f4 @ f5\<rparr>) = f1"
    and "c_server_lterm_shared (client\<lparr>c_mem := f1 @ f2 @ f3 @ f4 @ f5\<rparr>) = f2"
    and "c_hello (client\<lparr>c_mem := f1 @ f2 @ f3 @ f4 @ f5\<rparr>) = f3"
    and "c_shared_hash (client\<lparr>c_mem := f1 @ f2 @ f3 @ f4 @ f5\<rparr>) = f4"
    and "c_server_eph_pub (client\<lparr>c_mem := f1 @ f2 @ f3 @ f4 @ f5\<rparr>) = f5"
  using assms by (simp_all add: client_ok_def c_fields c_offsets sizes mem_simps)

lemma server_mem_upd:
  assumes "server_ok server"
    and "length f1 = 96" "length f2 = 32" "length f3 = 32" "length f4 = 32" "length f5 = 32"
  shows "server_ok (server\<lparr>s_mem := f1 @ f2 @ f3 @ f4 @ f5\<rparr>)"
    and "s_client_hello (server\<lparr>s_mem := f1 @ f2 @ f3 @ f4 @ f5\<rparr>) = f1"
    and "s_shared_hash (server\<lparr>s_mem := f1 @ f2 @ f3 @ f4 @ f5\<rparr>) = f2"
    and "s_client_eph_pub (server\<lparr>s_mem := f1 @ f2 @ f3 @ f4 @ f5\<rparr>) = f3"
    and "s_client_pub (server\<lparr>s_mem := f1 @ f2 @ f3 @ f4 @ f5\<rparr>) = f4"
    and "s_box_sec (server\<lparr>s_mem := f1 @ f2 @ f3 @ f4 @ f5\<rparr>) = f5"
  using assms by (simp_all add: server_ok_def s_fields s_offsets sizes mem_simps)

lemma handshake_outcomes:
  assumes sz: "sodium_sizes c" and rt: "sodium_roundtrips c" and ks: "sodium_keys c"
    and cok: "client_ok client" and sok: "server_ok server"
    and K: "s_app server = c_app client"
    and Bp: "c_server_pub client = s_pub server"
    and A: "sign_keypair c (c_pub client) (c_sec client)"
    and B: "sign_keypair c (s_pub server) (s_sec server)"
    and a: "box_keypair c (c_eph_pub client) (c_eph_sec client)"
    and b: "box_keypair c (s_eph_pub server) (s_eph_sec server)"
    and bufs: "buffers_ok L bf"
  shows "\<exists>client3 server3.
           run_handshake c L bf client server =
             Some (fst (shs1_client_outcome c L (b_client_outcome bf) client3),
                   fst (shs1_server_outcome c L (b_server_outcome bf) server3))
         \<and> client_ok client3 \<and> server_ok server3
         \<and> c_app client3 = c_app client \<and> s_app server3 = c_app client
         \<and> c_pub client3 = c_pub client \<and> s_client_pub server3 = c_pub client
         \<and> c_server_pub client3 = s_pub server \<and> s_pub server3 = s_pub server
         \<and> c_eph_pub client3 = c_eph_pub client \<and> s_client_eph_pub server3 = c_eph_pub client
         \<and> c_server_eph_pub client3 = s_eph_pub server \<and> s_eph_pub server3 = s_eph_pub server
         \<and> c_shared_secret client3 = s_box_sec server3"
proof -
  let ?K = "c_app client" and ?A_p = "c_pub client" and ?A_s = "c_sec client"
  let ?a_p = "c_eph_pub client" and ?a_s = "c_eph_sec client"
  let ?B_p = "s_pub server" and ?B_s = "s_sec server"
  let ?b_p = "s_eph_pub server" and ?b_s = "s_eph_sec server"
  note cl = client_okD [OF cok] and sl = server_okD [OF sok]
  note cf = client_mem_fields [OF cok] and sf = server_mem_fields [OF sok]
  from bufs have bl: "length (b_client_challenge bf) = 64" "length (b_server_challenge bf) = 64"
    "length (b_client_auth bf) = 112" "length (b_server_acc bf) = 80"
    by (simp_all add: buffers_ok_def sizes)
  from rt have av: "\<And>m k. crypto_auth_verify c (crypto_auth c m k) m k"
    and op: "\<And>m n k. crypto_secretbox_open_easy c (crypto_secretbox_easy c m n k) n k = Some m"
    by (simp_all add: sodium_roundtrips_def)
  \<comment> \<open>the secrets\<close>
  from ks a b obtain ss where ss: "crypto_scalarmult c ?a_s ?b_p = Some ss"
    "crypto_scalarmult c ?b_s ?a_p = Some ss"
    unfolding sodium_keys_def by blast
  from ks B obtain cB cBs where cB: "crypto_sign_ed25519_pk_to_curve25519 c ?B_p = Some cB"
    "crypto_sign_ed25519_sk_to_curve25519 c ?B_s = Some cBs" "box_keypair c cB cBs"
    unfolding sodium_keys_def by blast
  from ks a cB(3) obtain sls where sls: "crypto_scalarmult c ?a_s cB = Some sls"
    "crypto_scalarmult c cBs ?a_p = Some sls"
    unfolding sodium_keys_def by blast
  from ks A obtain cA cAs where cA: "crypto_sign_ed25519_pk_to_curve25519 c ?A_p = Some cA"
    "crypto_sign_ed25519_sk_to_curve25519 c ?A_s = Some cAs" "box_keypair c cA cAs"
    unfolding sodium_keys_def by blast
  from ks cA(3) b obtain lec where lec: "crypto_scalarmult c cAs ?b_p = Some lec"
    "crypto_scalarmult c ?b_s cA = Some lec"
    unfolding sodium_keys_def by blast
  from ks A B have sv: "\<And>m. crypto_sign_verify_detached c (crypto_sign_detached c m ?A_s) m ?A_p"
    "\<And>m. crypto_sign_verify_detached c (crypto_sign_detached c m ?B_s) m ?B_p"
    unfolding sodium_keys_def by blast+
  note lq = sizes_scalarmult [OF sz ss(1)] sizes_scalarmult [OF sz sls(1)]
    sizes_scalarmult [OF sz lec(1)]
  note lh = sizes_hash [OF sz] sizes_auth [OF sz] sizes_sign [OF sz]
  \<comment> \<open>the two challenges\<close>
  define server1 where "server1 = server\<lparr>s_mem := s_client_hello server @ s_shared_hash server
      @ ?a_p @ s_client_pub server @ s_box_sec server\<rparr>"
  define client1 where "client1 = client\<lparr>c_mem := c_shared_secret client
      @ c_server_lterm_shared client @ c_hello client @ c_shared_hash client @ ?b_p\<rparr>"
  have s1: "server_ok server1" "s_client_hello server1 = s_client_hello server"
    "s_shared_hash server1 = s_shared_hash server" "s_client_eph_pub server1 = ?a_p"
    "s_client_pub server1 = s_client_pub server" "s_box_sec server1 = s_box_sec server"
    unfolding server1_def by (rule server_mem_upd [OF sok]; simp add: sf cl)+
  have s1i: "s_app server1 = ?K" "s_pub server1 = ?B_p" "s_sec server1 = ?B_s"
    "s_eph_pub server1 = ?b_p" "s_eph_sec server1 = ?b_s"
    by (simp_all add: server1_def K)
  have c1: "client_ok client1" "c_shared_secret client1 = c_shared_secret client"
    "c_server_lterm_shared client1 = c_server_lterm_shared client"
    "c_hello client1 = c_hello client" "c_shared_hash client1 = c_shared_hash client"
    "c_server_eph_pub client1 = ?b_p"
    unfolding client1_def by (rule client_mem_upd [OF cok]; simp add: cf sl)+
  have c1i: "c_app client1 = ?K" "c_pub client1 = ?A_p" "c_sec client1 = ?A_s"
    "c_eph_pub client1 = ?a_p" "c_eph_sec client1 = ?a_s" "c_server_pub client1 = ?B_p"
    by (simp_all add: client1_def Bp)
  have st1: "shs1_create_client_challenge c (b_client_challenge bf) client
               = crypto_auth c ?a_p ?K @ ?a_p"
    by (rule create_client_challenge_eq [OF sz cok bl(1)])
  have st2: "shs1_verify_client_challenge c (crypto_auth c ?a_p ?K @ ?a_p) server
               = (True, server1)"
    by (simp add: verify_client_challenge_eq [OF sok] lh cl K av server1_def)
  have st3: "shs1_create_server_challenge c (b_server_challenge bf) server1
               = crypto_auth c ?b_p ?K @ ?b_p"
    using create_server_challenge_eq [OF sz s1(1) bl(2)] by (simp add: s1i)
  have st4: "shs1_verify_server_challenge c (crypto_auth c ?b_p ?K @ ?b_p) client
               = (True, client1)"
    by (simp add: verify_server_challenge_eq [OF cok] lh sl av client1_def)
  \<comment> \<open>the client's auth\<close>
  define sig_c where "sig_c = crypto_sign_detached c (?K @ ?B_p @ crypto_hash_sha256 c ss) ?A_s"
  define hello where "hello = sig_c @ ?A_p"
  define auth where "auth = crypto_secretbox_easy c hello zero_nonce
      (crypto_hash_sha256 c (?K @ ss @ sls))"
  define client2 where "client2 = client1\<lparr>c_mem := ss @ sls @ hello @ crypto_hash_sha256 c ss
      @ ?b_p\<rparr>"
  have lhello: "length sig_c = 64" "length hello = 96" "take 64 hello = sig_c"
    "drop 64 hello = ?A_p" "length auth = 112"
    by (simp_all add: sig_c_def hello_def auth_def lh cl sizes_box [OF sz])
  have st5: "shs1_create_client_auth c (b_client_auth bf) client1 = (0, auth, client2)"
    using create_client_auth_success [OF sz c1(1) bl(3), of ss cB sls]
    by (simp add: c1 c1i ss cB sls auth_def hello_def sig_c_def client2_def)
  have c2: "client_ok client2" "c_shared_secret client2 = ss"
    "c_server_lterm_shared client2 = sls" "c_hello client2 = hello"
    "c_shared_hash client2 = crypto_hash_sha256 c ss" "c_server_eph_pub client2 = ?b_p"
    unfolding client2_def by (rule client_mem_upd [OF c1(1)]; simp add: lq lh lhello sl)+
  have c2i: "c_app client2 = ?K" "c_pub client2 = ?A_p" "c_sec client2 = ?A_s"
    "c_eph_pub client2 = ?a_p" "c_eph_sec client2 = ?a_s" "c_server_pub client2 = ?B_p"
    by (simp_all add: client2_def c1i)
  \<comment> \<open>the server verifies it\<close>
  define box_sec where "box_sec = crypto_hash_sha256 c (?K @ ss @ sls @ lec)"
  define server2 where "server2 = server1\<lparr>s_mem := hello @ crypto_hash_sha256 c ss @ ?a_p
      @ ?A_p @ box_sec\<rparr>"
  have opened: "crypto_secretbox_open_easy c auth zero_nonce
      (crypto_hash_sha256 c (?K @ ss @ sls)) = Some hello"
    by (simp add: auth_def op)
  have sigok: "crypto_sign_verify_detached c sig_c (?K @ ?B_p @ crypto_hash_sha256 c ss) ?A_p"
    unfolding sig_c_def by (rule sv(1))
  have st6: "shs1_verify_client_auth c auth server1 = (True, server2)"
    unfolding verify_client_auth_eq [OF sz s1(1) lhello(5)]
    by (simp add: s1 s1i ss cB sls opened lhello cA lec sigok server2_def box_sec_def)
  have s2: "server_ok server2" "s_client_hello server2 = hello"
    "s_shared_hash server2 = crypto_hash_sha256 c ss" "s_client_eph_pub server2 = ?a_p"
    "s_client_pub server2 = ?A_p" "s_box_sec server2 = box_sec"
    unfolding server2_def
    by (rule server_mem_upd [OF s1(1)]; simp add: lh lhello cl box_sec_def)+
  have s2i: "s_app server2 = ?K" "s_pub server2 = ?B_p" "s_sec server2 = ?B_s"
    "s_eph_pub server2 = ?b_p" "s_eph_sec server2 = ?b_s"
    by (simp_all add: server2_def s1i)
  \<comment> \<open>the server's acc\<close>
  define sig_s where "sig_s = crypto_sign_detached c (?K @ hello @ crypto_hash_sha256 c ss) ?B_s"
  define acc where "acc = crypto_secretbox_easy c sig_s zero_nonce box_sec"
  define server3 where "server3 = server2\<lparr>s_mem := (sig_s @ ?A_p) @ crypto_hash_sha256 c ss
      @ ?a_p @ ?A_p @ box_sec\<rparr>"
  have lacc: "length sig_s = 64" "length acc = 80"
    by (simp_all add: sig_s_def acc_def lh sizes_box [OF sz])
  have st7: "shs1_create_server_acc c (b_server_acc bf) server2 = (acc, server3)"
    unfolding create_server_acc_eq [OF sz s2(1) bl(4)]
    by (simp add: s2 s2i acc_def sig_s_def server3_def lhello)
  have s3: "server_ok server3" "s_client_eph_pub server3 = ?a_p"
    "s_client_pub server3 = ?A_p" "s_box_sec server3 = box_sec"
    unfolding server3_def
    by (rule server_mem_upd [OF s2(1)]; simp add: lh lacc cl box_sec_def)+
  have s3i: "s_app server3 = ?K" "s_pub server3 = ?B_p" "s_eph_pub server3 = ?b_p"
    by (simp_all add: server3_def s2i)
  \<comment> \<open>the client verifies it\<close>
  define client3 where "client3 = client2\<lparr>c_mem := box_sec @ sls @ (sig_s @ ?A_p)
      @ crypto_hash_sha256 c ss @ ?b_p\<rparr>"
  have opened': "crypto_secretbox_open_easy c acc zero_nonce box_sec = Some sig_s"
    by (simp add: acc_def op)
  have sigok': "crypto_sign_verify_detached c sig_s (?K @ hello @ crypto_hash_sha256 c ss) ?B_p"
    unfolding sig_s_def by (rule sv(2))
  have st8: "shs1_verify_server_acc c acc client2 = (True, client3)"
    unfolding verify_server_acc_eq [OF sz c2(1) lacc(2)]
    by (simp add: c2 c2i cA lec box_sec_def [symmetric] opened' sigok' client3_def lhello)
  have c3: "client_ok client3" "c_shared_secret client3 = box_sec"
    "c_server_eph_pub client3 = ?b_p"
    unfolding client3_def
    by (rule client_mem_upd [OF c2(1)]; simp add: lh lq lacc cl sl box_sec_def)+
  have c3i: "c_app client3 = ?K" "c_pub client3 = ?A_p" "c_eph_pub client3 = ?a_p"
    "c_server_pub client3 = ?B_p"
    by (simp_all add: client3_def c2i)
  have run: "run_handshake c L bf client server =
      Some (fst (shs1_client_outcome c L (b_client_outcome bf) client3),
            fst (shs1_server_outcome c L (b_server_outcome bf) server3))"
    unfolding run_handshake_def
    by (simp add: st1 st2 st3 st4 st5 st6 st7 st8)
  show ?thesis
    using run c3 c3i s3 s3i by (intro exI [of _ client3] exI [of _ server3]) simp
qed

lemmas toy_prims = toy_def toy_auth_def toy_hash_def toy_scalarmult_def toy_pk_to_curve_def
  toy_sk_to_curve_def toy_sign_def toy_sign_verify_def toy_secretbox_def toy_secretbox_open_def
  pad32_def zero32_def zero_nonce_def sum_list_replicate

lemmas states0 = client0_def server0_def shs1_init_client_def shs1_init_server_def inputs0

text \<open>
  C1. For one application key \<open>K\<close>, Ed25519 key pairs \<open>(A_p, A_s)\<close> of the client and
  \<open>(B_p, B_s)\<close> of the server, Curve25519 ephemeral key pairs \<open>(a_p, a_s)\<close> and
  \<open>(b_p, b_s)\<close>, and a client initialised with the server's \<open>B_p\<close>, the eight operations in
  protocol order all succeed, and the outcomes are equal and crossed: the client's
  encryption key is the server's decryption key, the client's decryption key is the
  server's encryption key, and the same for the nonces.
\<close>

theorem handshake_interoperates:
  assumes "sodium_sizes c" and "sodium_roundtrips c" and "sodium_keys c"
    and "length K = crypto_auth_KEYBYTES"
    and "sign_keypair c A_p A_s" and "sign_keypair c B_p B_s"
    and "box_keypair c a_p a_s" and "box_keypair c b_p b_s"
    and "length raw_c = c_mem_size" and "length raw_s = s_mem_size"
    and "buffers_ok L bf"
  shows "\<exists>oc os.
           run_handshake c L bf (shs1_init_client raw_c K A_p A_s a_p a_s B_p)
             (shs1_init_server raw_s K B_p B_s b_p b_s) = Some (oc, os)
         \<and> encryption_key L oc = decryption_key L os
         \<and> decryption_key L oc = encryption_key L os
         \<and> encryption_nonce L oc = decryption_nonce L os
         \<and> decryption_nonce L oc = encryption_nonce L os"
proof -
  let ?client = "shs1_init_client raw_c K A_p A_s a_p a_s B_p"
  let ?server = "shs1_init_server raw_s K B_p B_s b_p b_s"
  from assms(3,5-8) have kl: "length A_p = 32" "length A_s = 64" "length B_p = 32"
    "length B_s = 64" "length a_p = 32" "length a_s = 32" "length b_p = 32" "length b_s = 32"
    unfolding sodium_keys_def sizes by blast+
  have cok: "client_ok ?client"
    using assms(4,9) kl by (simp add: client_ok_def shs1_init_client_def sizes)
  have sok: "server_ok ?server"
    using assms(4,10) kl by (simp add: server_ok_def shs1_init_server_def sizes)
  have "\<exists>client3 server3.
           run_handshake c L bf ?client ?server =
             Some (fst (shs1_client_outcome c L (b_client_outcome bf) client3),
                   fst (shs1_server_outcome c L (b_server_outcome bf) server3))
         \<and> client_ok client3 \<and> server_ok server3
         \<and> c_app client3 = c_app ?client \<and> s_app server3 = c_app ?client
         \<and> c_pub client3 = c_pub ?client \<and> s_client_pub server3 = c_pub ?client
         \<and> c_server_pub client3 = s_pub ?server \<and> s_pub server3 = s_pub ?server
         \<and> c_eph_pub client3 = c_eph_pub ?client \<and> s_client_eph_pub server3 = c_eph_pub ?client
         \<and> c_server_eph_pub client3 = s_eph_pub ?server \<and> s_eph_pub server3 = s_eph_pub ?server
         \<and> c_shared_secret client3 = s_box_sec server3"
    using assms(5-8)
    by (intro handshake_outcomes [OF assms(1-3) cok sok _ _ _ _ _ _ assms(11)])
      (simp_all add: shs1_init_client_def shs1_init_server_def)
  then obtain client3 server3 where
    run: "run_handshake c L bf ?client ?server =
             Some (fst (shs1_client_outcome c L (b_client_outcome bf) client3),
                   fst (shs1_server_outcome c L (b_server_outcome bf) server3))"
    and ok3: "client_ok client3" "server_ok server3"
    and eq: "c_app client3 = c_app ?client" "s_app server3 = c_app ?client"
      "c_pub client3 = c_pub ?client" "s_client_pub server3 = c_pub ?client"
      "c_server_pub client3 = s_pub ?server" "s_pub server3 = s_pub ?server"
      "c_eph_pub client3 = c_eph_pub ?client" "s_client_eph_pub server3 = c_eph_pub ?client"
      "c_server_eph_pub client3 = s_eph_pub ?server" "s_eph_pub server3 = s_eph_pub ?server"
      "c_shared_secret client3 = s_box_sec server3"
    by blast
  from assms(11) have L: "outcome_layout_ok L (b_client_outcome bf)"
    "outcome_layout_ok L (b_server_outcome bf)"
    by (simp_all add: buffers_ok_def)
  note co = client_outcome_fields [OF assms(1) ok3(1) L(1)]
  note so = server_outcome_fields [OF assms(1) ok3(2) L(2)]
  show ?thesis
    using run by (simp add: co so eq)
qed

lemma toy_keypairs0:
  "sign_keypair toy A_p0 A_s0" "sign_keypair toy B_p0 B_s0"
  "box_keypair toy a_p0 a_s0" "box_keypair toy b_p0 b_s0"
  by (simp_all add: toy_def inputs0 zero32_def)

lemma buffers0_ok: "buffers_ok spec_outcome_layout buffers0"
  by (simp add: buffers_ok_def buffers0_def outcome_layout_ok_def spec_outcome_layout_def sizes)

theorem handshake_interoperates_witness:
  "sodium_sizes toy \<and> sodium_roundtrips toy \<and> sodium_keys toy
   \<and> length K0 = crypto_auth_KEYBYTES
   \<and> sign_keypair toy A_p0 A_s0 \<and> sign_keypair toy B_p0 B_s0
   \<and> box_keypair toy a_p0 a_s0 \<and> box_keypair toy b_p0 b_s0
   \<and> length (replicate 224 (0::byte)) = c_mem_size
   \<and> length (replicate 224 (0::byte)) = s_mem_size
   \<and> buffers_ok spec_outcome_layout buffers0
   \<and> (\<exists>oc os. run_handshake toy spec_outcome_layout buffers0 client0 server0 = Some (oc, os)
         \<and> encryption_key spec_outcome_layout oc = decryption_key spec_outcome_layout os
         \<and> decryption_key spec_outcome_layout oc = encryption_key spec_outcome_layout os
         \<and> encryption_nonce spec_outcome_layout oc = decryption_nonce spec_outcome_layout os
         \<and> decryption_nonce spec_outcome_layout oc = encryption_nonce spec_outcome_layout os)"
proof -
  have l: "length K0 = crypto_auth_KEYBYTES" "length (replicate 224 (0::byte)) = c_mem_size"
    "length (replicate 224 (0::byte)) = s_mem_size"
    by (simp_all add: K0_def sizes c_offsets s_offsets)
  show ?thesis
    using handshake_interoperates [OF toy_sizes toy_roundtrips toy_keys l(1) toy_keypairs0
        l(2,3) buffers0_ok]
      toy_sizes toy_roundtrips toy_keys l toy_keypairs0 buffers0_ok
    unfolding client0_def server0_def by blast
qed

section \<open>The nonces\<close>

text \<open>
  C6. The nonces of an outcome are the first 24 bytes of a tag under \<open>K\<close>: the client's
  encryption nonce is that of \<open>HMAC(K, b_p)\<close> and its decryption nonce that of
  \<open>HMAC(K, a_p)\<close>; the server's encryption nonce is that of \<open>HMAC(K, a_p)\<close> and its
  decryption nonce that of \<open>HMAC(K, b_p)\<close>. The peer's ephemeral key is the one stored in
  the state.
\<close>

theorem outcome_nonces_are_tag_prefixes:
  assumes "sodium_sizes c" and "client_ok client" and "server_ok server"
    and "outcome_layout_ok L outcome"
  shows "encryption_nonce L (fst (shs1_client_outcome c L outcome client)) =
           take 24 (crypto_auth c (c_server_eph_pub client) (c_app client))
       \<and> decryption_nonce L (fst (shs1_client_outcome c L outcome client)) =
           take 24 (crypto_auth c (c_eph_pub client) (c_app client))
       \<and> encryption_nonce L (fst (shs1_server_outcome c L outcome server)) =
           take 24 (crypto_auth c (s_client_eph_pub server) (s_app server))
       \<and> decryption_nonce L (fst (shs1_server_outcome c L outcome server)) =
           take 24 (crypto_auth c (s_eph_pub server) (s_app server))
       \<and> length (crypto_auth c (c_eph_pub client) (c_app client)) = 32"
  using client_outcome_fields(2,4) [OF assms(1,2,4)] server_outcome_fields(2,4) [OF assms(1,3,4)]
    sizes_auth [OF assms(1)]
  by simp

lemma server_after_challenge_ok: "server_ok server_after_challenge"
  by (simp add: server_ok_def server_after_challenge_def states0 sizes s_offsets)

lemma spec_layout_ok: "outcome_layout_ok spec_outcome_layout (replicate 112 0)"
  by (simp add: outcome_layout_ok_def spec_outcome_layout_def sizes)

theorem outcome_nonces_are_tag_prefixes_witness:
  "sodium_sizes toy \<and> client_ok client_after_challenge \<and> server_ok server_after_challenge
   \<and> outcome_layout_ok spec_outcome_layout (replicate 112 0)
   \<and> encryption_nonce spec_outcome_layout
         (fst (shs1_client_outcome toy spec_outcome_layout (replicate 112 0) client_after_challenge)) =
           take 24 (crypto_auth toy (c_server_eph_pub client_after_challenge) (c_app client_after_challenge))
   \<and> decryption_nonce spec_outcome_layout
         (fst (shs1_client_outcome toy spec_outcome_layout (replicate 112 0) client_after_challenge)) =
           take 24 (crypto_auth toy (c_eph_pub client_after_challenge) (c_app client_after_challenge))
   \<and> encryption_nonce spec_outcome_layout
         (fst (shs1_server_outcome toy spec_outcome_layout (replicate 112 0) server_after_challenge)) =
           take 24 (crypto_auth toy (s_client_eph_pub server_after_challenge) (s_app server_after_challenge))
   \<and> decryption_nonce spec_outcome_layout
         (fst (shs1_server_outcome toy spec_outcome_layout (replicate 112 0) server_after_challenge)) =
           take 24 (crypto_auth toy (s_eph_pub server_after_challenge) (s_app server_after_challenge))"
  using outcome_nonces_are_tag_prefixes [OF toy_sizes client_after_challenge_ok server_after_challenge_ok spec_layout_ok]
    toy_sizes client_after_challenge_ok server_after_challenge_ok spec_layout_ok
  by simp

section \<open>Another application key\<close>










section \<open>Verifying acc and auth\<close>

lemma verify_server_acc_returns:
  assumes "sodium_sizes c" and "client_ok client" and "length acc = 80"
  shows "fst (shs1_verify_server_acc c acc client) = verify_server_acc_steps c acc client"
  unfolding verify_server_acc_eq [OF assms] verify_server_acc_steps_def
  by (simp split: option.split)

lemma expected_is_160_bytes:
  assumes "client_ok client"
  shows "c_expected_memcpy (c_app client) (c_mem client)
           = c_app client @ c_hello client @ c_shared_hash client"
    and "length (c_app client @ c_hello client @ c_shared_hash client) = 160"
proof -
  note f = client_mem_fields [OF assms]
  show "length (c_app client @ c_hello client @ c_shared_hash client) = 160"
    by (simp add: f(2-) client_okD [OF assms])
  have "slice 64 (96 + 32) (c_mem client)
          = slice 64 96 (c_mem client) @ slice (64 + 96) 32 (c_mem client)"
    by (rule slice_adjacent)
  then show "c_expected_memcpy (c_app client) (c_mem client)
           = c_app client @ c_hello client @ c_shared_hash client"
    by (simp add: c_expected_memcpy_def c_fields c_offsets sizes client_okD [OF assms])
qed

text \<open>
  C5, amended. \<open>shs1_verify_server_acc\<close> returns true if and only if the conversion of
  \<open>A_s\<close> to Curve25519 succeeds, the scalar multiplication with \<open>b_p\<close> succeeds, the
  80-byte acc opens under the zero nonce with the key
  \<open>SHA256(K || shared_secret || server_lterm_shared || client_lterm_shared)\<close>, and the
  64 bytes it holds verify under \<open>B_p\<close> as a signature of the 160 bytes
  \<open>K || hello || shared_hash\<close>, which are the bytes of the buffer \<open>expected\<close>; otherwise it
  returns false.
\<close>

theorem verify_server_acc_iff_steps:
  assumes "sodium_sizes c" and "client_ok client" and "length acc = SHS1_SERVER_ACC_BYTES"
  shows "fst (shs1_verify_server_acc c acc client) = verify_server_acc_steps c acc client
       \<and> c_expected_memcpy (c_app client) (c_mem client)
           = c_app client @ c_hello client @ c_shared_hash client
       \<and> length (c_app client @ c_hello client @ c_shared_hash client) = 160
       \<and> (\<forall>key server_sig.
             crypto_secretbox_open_easy c acc zero_nonce key = Some server_sig
             \<longrightarrow> length server_sig = 64)"
proof -
  have la: "length acc = 80"
    using assms(3) by (simp add: sizes)
  have "length server_sig = 64"
    if "crypto_secretbox_open_easy c acc zero_nonce key = Some server_sig" for key server_sig
    using sizes_open [OF assms(1) that] la by simp
  then show ?thesis
    using verify_server_acc_returns [OF assms(1,2) la] expected_is_160_bytes [OF assms(2)]
    by blast
qed

text \<open>
  C3, amended. \<open>shs1_verify_client_auth\<close> returns true if and only if every step succeeds:
  the scalar multiplications and key conversions, opening the 112-byte auth under the zero
  nonce with the key \<open>SHA256(K || shared_secret || client_eph_lterm_shared)\<close>, and verifying
  the first 64 bytes of the opened hello as a signature of
  \<open>K || B_p || SHA256(shared_secret)\<close> by the key in its last 32 bytes. On success
  \<open>box_sec\<close> is \<open>SHA256(K || shared_secret || client_eph_lterm_shared ||
  lterm_eph_client_shared)\<close> and \<open>client_pub\<close> is the last 32 bytes of the opened hello;
  on failure \<open>box_sec\<close> is as before. Whether the call succeeds or fails, \<open>client_pub\<close> is
  the last 32 bytes of the opened hello once the auth has opened, and is as before when the
  auth has not opened.
\<close>

theorem verify_client_auth_meets_steps:
  assumes sz: "sodium_sizes c" and ok: "server_ok server"
    and len: "length auth = SHS1_CLIENT_AUTH_BYTES"
  shows "(case verify_client_auth_steps c auth server of
           None \<Rightarrow>
             \<not> fst (shs1_verify_client_auth c auth server)
             \<and> s_box_sec (snd (shs1_verify_client_auth c auth server)) = s_box_sec server
         | Some (box_key, client_pub) \<Rightarrow>
             fst (shs1_verify_client_auth c auth server)
             \<and> s_box_sec (snd (shs1_verify_client_auth c auth server)) = box_key
             \<and> s_client_pub (snd (shs1_verify_client_auth c auth server)) = client_pub)
       \<and> s_client_pub (snd (shs1_verify_client_auth c auth server)) =
           (case verify_client_auth_opened c auth server of
              None \<Rightarrow> s_client_pub server
            | Some hello \<Rightarrow> drop crypto_sign_BYTES hello)"
proof -
  have la: "length auth = 112"
    using len by (simp add: sizes)
  note f = server_mem_fields [OF ok]
  have hello: "length h = 96" "length (drop 64 h) = 32"
    if "crypto_secretbox_open_easy c auth n k = Some h" for h n k
    using sizes_open [OF sz that] la by simp_all
  have steps: "case verify_client_auth_steps c auth server of
           None \<Rightarrow>
             \<not> fst (shs1_verify_client_auth c auth server)
             \<and> s_box_sec (snd (shs1_verify_client_auth c auth server)) = s_box_sec server
         | Some (box_key, client_pub) \<Rightarrow>
             fst (shs1_verify_client_auth c auth server)
             \<and> s_box_sec (snd (shs1_verify_client_auth c auth server)) = box_key
             \<and> s_client_pub (snd (shs1_verify_client_auth c auth server)) = client_pub"
    unfolding verify_client_auth_eq [OF sz ok la] verify_client_auth_steps_def
    by (simp add: server_mem_upd(5,6) [OF ok] f(2-) hello sizes_hash [OF sz]
        sizes_scalarmult [OF sz] sizes_sk [OF sz] sizes_pk [OF sz] sizes
        split: option.split)
  have opened: "s_client_pub (snd (shs1_verify_client_auth c auth server)) =
           (case verify_client_auth_opened c auth server of
              None \<Rightarrow> s_client_pub server
            | Some hello \<Rightarrow> drop crypto_sign_BYTES hello)"
    unfolding verify_client_auth_eq [OF sz ok la] verify_client_auth_opened_def
    by (simp add: server_mem_upd(5) [OF ok] f(2-) hello sizes_hash [OF sz]
        sizes_scalarmult [OF sz] sizes_sk [OF sz] sizes_pk [OF sz] sizes
        split: option.split)
  from steps opened show ?thesis ..
qed

section \<open>Verifying acc and auth on the small instance\<close>

lemma replicate_64: "replicate 64 x = replicate 32 x @ replicate 32 x"
  by (simp add: replicate_add [symmetric])

lemma auth0_len: "length auth0 = SHS1_CLIENT_AUTH_BYTES" "length auth_bad_sig = SHS1_CLIENT_AUTH_BYTES"
  by (simp_all add: auth0_def auth_bad_sig_def hello0_def toy_prims inputs0 sizes)

lemma server_after_challenge_fields:
  "s_client_eph_pub server_after_challenge = a_p0" "s_client_pub server_after_challenge = replicate 32 0"
  "s_box_sec server_after_challenge = replicate 32 0"
  "s_app server_after_challenge = K0" "s_pub server_after_challenge = B_p0" "s_sec server_after_challenge = B_s0" "s_eph_sec server_after_challenge = b_s0"
  by (simp_all add: server_after_challenge_def states0 s_fields s_offsets sizes slice_def)

lemma steps_auth0: "verify_client_auth_steps toy auth0 server_after_challenge = Some (box_sec0, A_p0)"
  unfolding verify_client_auth_steps_def server_after_challenge_fields
  by (simp add: auth0_def hello0_def box_sec0_def toy_prims inputs0 sizes)

lemma steps_auth_bad_sig: "verify_client_auth_steps toy auth_bad_sig server_after_challenge = None"
  unfolding verify_client_auth_steps_def server_after_challenge_fields
  by (simp add: auth_bad_sig_def toy_prims inputs0 sizes replicate_64)

lemma opened_auth_bad_sig:
  "verify_client_auth_opened toy auth_bad_sig server_after_challenge
     = Some (replicate 64 0 @ A_p0)"
  unfolding verify_client_auth_opened_def server_after_challenge_fields
  by (simp add: auth_bad_sig_def toy_prims inputs0 sizes)

lemma opened_zero_auth:
  "verify_client_auth_opened toy (replicate 112 0) server_after_challenge = None"
  unfolding verify_client_auth_opened_def server_after_challenge_fields
  by (simp add: toy_prims inputs0 sizes)

theorem verify_client_auth_meets_steps_witness:
  "sodium_sizes toy \<and> server_ok server_after_challenge \<and> length auth0 = SHS1_CLIENT_AUTH_BYTES
   \<and> verify_client_auth_steps toy auth0 server_after_challenge = Some (box_sec0, A_p0)
   \<and> fst (shs1_verify_client_auth toy auth0 server_after_challenge)
   \<and> s_box_sec (snd (shs1_verify_client_auth toy auth0 server_after_challenge)) = box_sec0
   \<and> s_client_pub (snd (shs1_verify_client_auth toy auth0 server_after_challenge)) = A_p0
   \<and> length auth_bad_sig = SHS1_CLIENT_AUTH_BYTES
   \<and> verify_client_auth_steps toy auth_bad_sig server_after_challenge = None
   \<and> verify_client_auth_opened toy auth_bad_sig server_after_challenge
        = Some (replicate 64 0 @ A_p0)
   \<and> \<not> fst (shs1_verify_client_auth toy auth_bad_sig server_after_challenge)
   \<and> s_box_sec (snd (shs1_verify_client_auth toy auth_bad_sig server_after_challenge))
        = s_box_sec server_after_challenge
   \<and> s_client_pub (snd (shs1_verify_client_auth toy auth_bad_sig server_after_challenge))
        = drop 64 (replicate 64 0 @ A_p0)
   \<and> length (replicate 112 (0::byte)) = SHS1_CLIENT_AUTH_BYTES
   \<and> verify_client_auth_opened toy (replicate 112 0) server_after_challenge = None
   \<and> s_client_pub (snd (shs1_verify_client_auth toy (replicate 112 0) server_after_challenge))
        = s_client_pub server_after_challenge"
proof -
  have l: "length (replicate 112 (0::byte)) = SHS1_CLIENT_AUTH_BYTES"
    by (simp add: sizes)
  show ?thesis
    using verify_client_auth_meets_steps [OF toy_sizes server_after_challenge_ok auth0_len(1)]
      verify_client_auth_meets_steps [OF toy_sizes server_after_challenge_ok auth0_len(2)]
      verify_client_auth_meets_steps [OF toy_sizes server_after_challenge_ok l]
      toy_sizes server_after_challenge_ok auth0_len l steps_auth0 steps_auth_bad_sig
      opened_auth_bad_sig opened_zero_auth
    by (simp add: sizes)
qed

lemma bad_sig_run:
  "shs1_verify_client_auth toy auth_bad_sig server_after_challenge =
     (False, server_after_challenge\<lparr>s_mem := (replicate 64 0 @ A_p0) @ toy_hash (replicate 32 8) @ a_p0
        @ A_p0 @ replicate 32 0\<rparr>)"
proof -
  have la: "length auth_bad_sig = 112"
    using auth0_len(2) by (simp add: sizes)
  show ?thesis
    unfolding verify_client_auth_eq [OF toy_sizes server_after_challenge_ok la] server_after_challenge_fields
    by (simp add: auth_bad_sig_def toy_prims inputs0 sizes replicate_64)
qed

text \<open>
  C3 as stated says that \<open>client_pub\<close> is set on success only. The code stores it as soon
  as the auth has opened: on an auth that opens and whose signature does not verify, the
  call returns false and \<open>client_pub\<close> holds the last 32 bytes of the opened hello.
\<close>

theorem client_pub_written_on_failure:
  "\<not> fst (shs1_verify_client_auth toy auth_bad_sig server_after_challenge)
   \<and> s_client_pub (snd (shs1_verify_client_auth toy auth_bad_sig server_after_challenge)) = A_p0
   \<and> s_client_pub server_after_challenge = replicate 32 0
   \<and> A_p0 \<noteq> replicate 32 0"
proof -
  have "s_client_pub (server_after_challenge\<lparr>s_mem := (replicate 64 0 @ A_p0) @ toy_hash (replicate 32 8)
          @ a_p0 @ A_p0 @ replicate 32 0\<rparr>) = A_p0"
    by (simp add: s_fields s_offsets sizes mem_simps inputs0 toy_hash_def pad32_def)
  then show ?thesis
    unfolding bad_sig_run by (simp add: server_after_challenge_fields inputs0)
qed

lemma client_after_auth_ok: "client_ok client_after_auth"
  by (simp add: client_ok_def client_after_auth_def states0 hello0_def toy_prims sizes c_offsets)

lemma acc0_len: "length acc0 = SHS1_SERVER_ACC_BYTES"
  by (simp add: acc0_def box_sec0_def hello0_def toy_prims inputs0 sizes)

lemma client_after_auth_fields:
  "c_shared_secret client_after_auth = replicate 32 8" "c_server_lterm_shared client_after_auth = replicate 32 7"
  "c_hello client_after_auth = hello0" "c_shared_hash client_after_auth = toy_hash (replicate 32 8)"
  "c_server_eph_pub client_after_auth = b_p0"
  "c_app client_after_auth = K0" "c_sec client_after_auth = A_s0" "c_server_pub client_after_auth = B_p0"
  by (simp_all add: client_after_auth_def states0 c_fields c_offsets sizes mem_simps hello0_def
      toy_sign_def toy_hash_def pad32_def)

lemma steps_acc0: "verify_server_acc_steps toy acc0 client_after_auth"
  unfolding verify_server_acc_steps_def client_after_auth_fields
  by (simp add: acc0_def box_sec0_def hello0_def toy_prims inputs0 sizes)

lemma acc0_opens:
  "crypto_secretbox_open_easy toy acc0 zero_nonce box_sec0
     = Some (toy_sign (K0 @ hello0 @ toy_hash (replicate 32 8)) B_s0)"
proof -
  have eq: "acc0 = crypto_secretbox_easy toy
          (toy_sign (K0 @ hello0 @ toy_hash (replicate 32 8)) B_s0) zero_nonce box_sec0"
    by (simp add: acc0_def toy_def)
  from toy_roundtrips
  have r: "crypto_secretbox_open_easy toy (crypto_secretbox_easy toy m n k) n k = Some m"
    for m n k
    by (simp add: sodium_roundtrips_def)
  show ?thesis
    by (subst eq) (rule r)
qed

theorem verify_server_acc_iff_steps_witness:
  "sodium_sizes toy \<and> client_ok client_after_auth \<and> length acc0 = SHS1_SERVER_ACC_BYTES
   \<and> fst (shs1_verify_server_acc toy acc0 client_after_auth)
        = verify_server_acc_steps toy acc0 client_after_auth
   \<and> verify_server_acc_steps toy acc0 client_after_auth
   \<and> length (c_app client_after_auth @ c_hello client_after_auth
               @ c_shared_hash client_after_auth) = 160
   \<and> crypto_secretbox_open_easy toy acc0 zero_nonce box_sec0
        = Some (toy_sign (K0 @ hello0 @ toy_hash (replicate 32 8)) B_s0)
   \<and> length (toy_sign (K0 @ hello0 @ toy_hash (replicate 32 8)) B_s0) = 64"
  using verify_server_acc_iff_steps [OF toy_sizes client_after_auth_ok acc0_len]
    toy_sizes client_after_auth_ok acc0_len steps_acc0 acc0_opens
  by simp

text \<open>
  C5 as stated says that the signed message \<open>K || hello || shared_hash\<close> has 192 bytes.
  \<open>expected\<close> has \<open>crypto_auth_KEYBYTES + HELLO_BYTES + crypto_hash_sha256_BYTES\<close> bytes,
  32 + 96 + 32: on an acc that the client accepts, the message has 160 bytes.
\<close>

theorem accepted_acc_signs_160_bytes:
  "fst (shs1_verify_server_acc toy acc0 client_after_auth)
   \<and> c_expected_memcpy (c_app client_after_auth) (c_mem client_after_auth)
       = c_app client_after_auth @ c_hello client_after_auth @ c_shared_hash client_after_auth
   \<and> length (c_app client_after_auth @ c_hello client_after_auth
               @ c_shared_hash client_after_auth) = 160
   \<and> length (c_app client_after_auth @ c_hello client_after_auth
               @ c_shared_hash client_after_auth) \<noteq> 192"
proof -
  have la: "length acc0 = 80"
    using acc0_len by (simp add: sizes)
  show ?thesis
    using verify_server_acc_returns [OF toy_sizes client_after_auth_ok la] steps_acc0
      expected_is_160_bytes [OF client_after_auth_ok]
    by simp
qed

end
